theory Spec2Isabelle
  imports Complex_Main
begin

section \<open>Connecteur Redmine: a model of \<^verbatim>\<open>src/connect.py\<close>\<close>

text \<open>
  The program is a Flask application with two webhooks (\<^verbatim>\<open>/webhook/email\<close>,
  \<^verbatim>\<open>/webhook/redmine\<close>) and two periodic jobs (\<^verbatim>\<open>check_emails\<close>,
  \<^verbatim>\<open>process_redmine_updates\<close>). It talks to three outside systems through libraries:
  the Redmine server (python-redmine), an SMTP server (smtplib) and an IMAP server (imaplib).

  Conventions of the model:
  \<^item> Python strings are \<open>string\<close>, one \<open>char\<close> per code point; only code points below 256
    are representable, which covers every literal of the source (the accented letters of the
    French messages are written \<open>CHR 0xE9\<close> and so on).
  \<^item> Values decoded from JSON or YAML are \<open>json\<close>; Python's \<open>None\<close> is \<open>JNull\<close>.
  \<^item> A raised exception is a value of \<open>exn\<close>, and a function that can raise returns
    \<open>exn + 'a\<close>. Every \<^verbatim>\<open>try ... except Exception\<close> of the source is a case distinction.
  \<^item> The outside systems are parameters: a record of operations over an arbitrary state
    (\<open>'r\<close> for the tracker, \<open>'m\<close> for the mail servers). Nothing is assumed about what
    they answer, except that the read operations of python-redmine (\<open>get\<close>, \<open>filter\<close>)
    leave the tracker unchanged.
  \<^item> Every call that leaves the process is recorded, with its answer, in the \<open>trace\<close> of the
    world; a call of \<^verbatim>\<open>send_email\<close> is recorded too (\<open>SendEmailCall\<close>), before anything it does.
    The trace is the history the properties speak about; the program has no such variable.
  \<^item> Calls of \<^verbatim>\<open>logger\<close> only write text to a file and the console and never influence a
    result; they are left out.
\<close>

subsection \<open>Strings\<close>

definition py_isspace :: "char \<Rightarrow> bool" where
  \<comment> \<open>\<^verbatim>\<open>str.isspace\<close> on code points below 256: the characters \<^verbatim>\<open>str.strip()\<close> removes.\<close>
  "py_isspace c = (of_char c \<in> {9, 10, 11, 12, 13, 28, 29, 30, 31, 32, 133, 160 :: nat})"

definition is_digit :: "char \<Rightarrow> bool" where
  \<comment> \<open>What \<^verbatim>\<open>\d\<close> matches below code point 256.\<close>
  "is_digit c = (c \<in> set ''0123456789'')"

definition startswith :: "string \<Rightarrow> string \<Rightarrow> bool" where
  "startswith s p = (take (length p) s = p)"

fun is_substring :: "string \<Rightarrow> string \<Rightarrow> bool" where
  \<comment> \<open>\<^verbatim>\<open>p in s\<close> for two strings.\<close>
  "is_substring p [] = (p = [])"
| "is_substring p (c # cs) = (startswith (c # cs) p \<or> is_substring p cs)"

definition strip :: "string \<Rightarrow> string" where
  "strip s = rev (dropWhile py_isspace (rev (dropWhile py_isspace s)))"

fun split_on :: "char \<Rightarrow> string \<Rightarrow> string list" where
  \<comment> \<open>\<^verbatim>\<open>s.split(c)\<close> for a one-character separator: never the empty list.\<close>
  "split_on c [] = [[]]"
| "split_on c (x # xs) =
     (if x = c then [] # split_on c xs
      else (case split_on c xs of l # ls \<Rightarrow> (x # l) # ls | [] \<Rightarrow> [[x]]))"

function replace_with_empty :: "string \<Rightarrow> string \<Rightarrow> string" where
  \<comment> \<open>\<^verbatim>\<open>s.replace(old, "")\<close> for a non-empty \<open>old\<close>: every occurrence, left to right.\<close>
  "replace_with_empty old s =
     (if old = [] \<or> s = [] then s
      else if startswith s old then replace_with_empty old (drop (length old) s)
      else hd s # replace_with_empty old (tl s))"
  by pat_completeness auto
termination
  by (relation "measure (\<lambda>(old, s). length s)") auto

declare replace_with_empty.simps [simp del]

definition digit_char :: "nat \<Rightarrow> char" where
  "digit_char d = ''0123456789'' ! d"

fun str_nat :: "nat \<Rightarrow> string" where
  "str_nat n = (if n < 10 then [digit_char n] else str_nat (n div 10) @ [digit_char (n mod 10)])"

declare str_nat.simps [simp del]

definition str_int :: "int \<Rightarrow> string" where
  \<comment> \<open>\<^verbatim>\<open>str(i)\<close>, which is what an f-string writes for an integer.\<close>
  "str_int i = (if i < 0 then CHR ''-'' # str_nat (nat (- i)) else str_nat (nat i))"

definition int_of_digits :: "string \<Rightarrow> int" where
  \<comment> \<open>The number a run of decimal digits denotes.\<close>
  "int_of_digits ds = foldl (\<lambda>a c. 10 * a + int (of_char c - 48)) 0 ds"

subsection \<open>The correlation tag\<close>

text \<open>
  A confirmation or notification subject starts with \<^verbatim>\<open>f"[Redmine #{issue.id}]"\<close>; the e-mail
  webhook looks for it with \<^verbatim>\<open>re.search(r'\[Redmine #(\d+)\]', subject)\<close> and takes
  \<^verbatim>\<open>group(1)\<close>. \<open>match_at\<close> is a match of the pattern at the start of a string (the digit
  run is greedy and the next character must be the closing bracket, so backtracking never
  finds another match there); \<open>re_search\<close> tries every start position from the left, the
  empty suffix included, and returns the first match's digits.
\<close>

definition tag_open :: string where
  "tag_open = ''[Redmine #''"

definition encode_tag :: "int \<Rightarrow> string" where
  "encode_tag i = tag_open @ str_int i @ '']''"

definition match_at :: "string \<Rightarrow> string option" where
  "match_at s =
     (if startswith s tag_open then
        (let r = drop (length tag_open) s;
             ds = takeWhile is_digit r;
             rest = dropWhile is_digit r
         in if ds \<noteq> [] \<and> startswith rest '']'' then Some ds else None)
      else None)"

fun re_search :: "string \<Rightarrow> string option" where
  "re_search [] = match_at []"
| "re_search (c # cs) =
     (case match_at (c # cs) of Some ds \<Rightarrow> Some ds | None \<Rightarrow> re_search cs)"

definition contains_tag :: "string \<Rightarrow> bool" where
  \<comment> \<open>The subject holds the pattern somewhere: a specification, not used by the program.\<close>
  "contains_tag s =
     (\<exists>pre ds suf. s = pre @ tag_open @ ds @ '']'' @ suf \<and> ds \<noteq> [] \<and> list_all is_digit ds)"

subsection \<open>The requester of a ticket\<close>

text \<open>
  Both \<^verbatim>\<open>process_redmine_updates\<close> and \<^verbatim>\<open>redmine_webhook\<close> recover the requester from the
  description with the same loop:
  \<^verbatim>\<open>
  requester_email = None
  for line in description.split('\n'):
      if line.startswith("De:"):
          requester_email = line.replace("De:", "").strip()
          break
  \<close>
\<close>

fun find_requester :: "string list \<Rightarrow> string option" where
  "find_requester [] = None"
| "find_requester (line # lines) =
     (if startswith line ''De:'' then Some (strip (replace_with_empty ''De:'' line))
      else find_requester lines)"

definition extract_requester :: "string \<Rightarrow> string option" where
  "extract_requester description = find_requester (split_on (CHR 0x0A) description)"

subsection \<open>Values and exceptions\<close>

text \<open>
  What \<^verbatim>\<open>request.json\<close> and \<^verbatim>\<open>yaml.safe_load\<close> produce. An object is the list of its
  items (keys distinct, as in a Python dict); \<open>map_of\<close> looks a key up.
\<close>

datatype json =
    JNull
  | JBool bool
  | JInt int
  | JFloat rat
  | JStr string
  | JArr "json list"
  | JObj "(string \<times> json) list"

text \<open>
  The exceptions the model raises itself, and \<open>LibraryError\<close> for whatever else a library
  call raises (its message as the argument). \<open>ResourceNotFoundError\<close> is python-redmine's.
\<close>

datatype exn =
    NameError string
  | KeyError string
  | TypeError
  | AttributeError
  | ResourceNotFoundError
  | LibraryError string

text \<open>Truth value of a value, as \<^verbatim>\<open>not data\<close> and \<^verbatim>\<open>if x:\<close> test it.\<close>

fun truthy :: "json \<Rightarrow> bool" where
  "truthy JNull = False"
| "truthy (JBool b) = b"
| "truthy (JInt i) = (i \<noteq> 0)"
| "truthy (JFloat r) = (r \<noteq> 0)"
| "truthy (JStr s) = (s \<noteq> [])"
| "truthy (JArr xs) = (xs \<noteq> [])"
| "truthy (JObj kvs) = (kvs \<noteq> [])"

text \<open>
  \<^verbatim>\<open>k in v\<close> and \<^verbatim>\<open>v[k]\<close> for a string \<open>k\<close>. Membership is defined on dicts, lists and
  strings and raises \<open>TypeError\<close> on the other values; subscripting with a string is
  defined on dicts only.
\<close>

fun py_contains :: "string \<Rightarrow> json \<Rightarrow> exn + bool" where
  "py_contains k (JObj kvs) = Inr (k \<in> set (map fst kvs))"
| "py_contains k (JArr xs) = Inr (JStr k \<in> set xs)"
| "py_contains k (JStr s) = Inr (is_substring k s)"
| "py_contains k v = Inl TypeError"

fun py_getitem :: "json \<Rightarrow> string \<Rightarrow> exn + json" where
  "py_getitem (JObj kvs) k = (case map_of kvs k of None \<Rightarrow> Inl (KeyError k) | Some v \<Rightarrow> Inr v)"
| "py_getitem v k = Inl TypeError"

subsection \<open>Tickets, messages and the outside systems\<close>

text \<open>
  A journal entry and a ticket as python-redmine returns them. \<open>None\<close> in
  \<open>journal_created_on\<close> or \<open>journal_notes\<close> is an attribute the resource does not have
  (\<^verbatim>\<open>hasattr\<close> is false) or, for the notes, one that is \<^verbatim>\<open>None\<close>; the program treats both
  alike. \<open>None\<close> as a description is a ticket without one, on which
  \<^verbatim>\<open>description.split\<close> raises.

  python-redmine converts the date and time strings of the server into \<^verbatim>\<open>datetime\<close> objects,
  so a creation time is a \<open>py_datetime\<close> (the instant, in seconds since the epoch). The scan
  compares it with an integer, \<^verbatim>\<open>journal.created_on >= updated_since\<close>; neither type
  implements that comparison with the other, so Python raises \<open>TypeError\<close>, whatever the
  two values are.
\<close>

datatype py_datetime = Datetime int

definition datetime_ge_int :: "py_datetime \<Rightarrow> int \<Rightarrow> exn + bool" where
  \<comment> \<open>\<^verbatim>\<open>d >= n\<close> for a \<^verbatim>\<open>datetime\<close> and an \<^verbatim>\<open>int\<close>.\<close>
  "datetime_ge_int d n = Inl TypeError"

record journal =
  journal_created_on :: "py_datetime option"
  journal_notes :: "string option"

record issue =
  iss_id :: int
  iss_subject :: string
  iss_description :: "string option"
  iss_journals :: "journal list"

text \<open>
  The keyword arguments of \<^verbatim>\<open>redmine.issue.create\<close>. Every caller of
  \<^verbatim>\<open>create_redmine_issue\<close> passes three arguments, so the optional tracker, status, priority
  and assignee stay \<^verbatim>\<open>None\<close> and are never added.
\<close>

record issue_data =
  new_project_id :: json
  new_subject :: json
  new_description :: string

record filter_query =
  q_updated_on :: string
  q_sort :: string
  q_limit :: nat

text \<open>
  An unread message as \<^verbatim>\<open>email.message_from_bytes\<close> presents it: the \<^verbatim>\<open>Subject\<close> header
  (\<open>JNull\<close> when absent), the address \<^verbatim>\<open>parseaddr\<close> finds in \<^verbatim>\<open>From\<close>, the parts
  \<^verbatim>\<open>walk()\<close> yields with \<^verbatim>\<open>str(part.get("Content-Disposition"))\<close> and the decoded payload
  (decoding can raise).
\<close>

record mail_part =
  part_content_type :: string
  part_content_disposition :: string
  part_text :: "exn + string"

record mail_message =
  msg_subject :: json
  msg_from :: string
  msg_is_multipart :: bool
  msg_parts :: "mail_part list"
  msg_text :: "exn + string"

record email_message =
  out_subject :: string
  out_from :: json
  out_to :: json
  out_content :: string

text \<open>
  The operations of the libraries. \<open>smtp_send\<close> stands for connecting, \<^verbatim>\<open>starttls\<close>,
  \<^verbatim>\<open>login\<close> and \<^verbatim>\<open>send_message\<close>; \<open>imap_open\<close> for connecting, \<^verbatim>\<open>login\<close> and
  \<^verbatim>\<open>select('inbox')\<close>; \<open>imap_close\<close> for \<^verbatim>\<open>close\<close> and \<^verbatim>\<open>logout\<close>. \<open>str_of_value\<close> is
  Python's \<^verbatim>\<open>str\<close> on a value that is not a string.
\<close>

record 'r redmine_client =
  issue_create :: "issue_data \<Rightarrow> 'r \<Rightarrow> (exn + issue) \<times> 'r"
  issue_get :: "json \<Rightarrow> string list \<Rightarrow> 'r \<Rightarrow> exn + issue"
  issue_update :: "json \<Rightarrow> string \<Rightarrow> 'r \<Rightarrow> (exn + unit) \<times> 'r"
  issue_filter :: "filter_query \<Rightarrow> 'r \<Rightarrow> exn + issue list"

record 'm mail_client =
  smtp_send :: "json \<Rightarrow> json \<Rightarrow> json \<Rightarrow> json \<Rightarrow> email_message \<Rightarrow> 'm \<Rightarrow> (exn + unit) \<times> 'm"
  imap_open :: "json \<Rightarrow> json \<Rightarrow> json \<Rightarrow> 'm \<Rightarrow> (exn + unit) \<times> 'm"
  imap_search_unseen :: "'m \<Rightarrow> (exn + string \<times> string list) \<times> 'm"
  imap_fetch :: "string \<Rightarrow> 'm \<Rightarrow> (exn + string \<times> mail_message) \<times> 'm"
  imap_store_seen :: "string \<Rightarrow> 'm \<Rightarrow> (exn + unit) \<times> 'm"
  imap_close :: "'m \<Rightarrow> (exn + unit) \<times> 'm"

record ('r, 'm) services =
  redmine :: "'r redmine_client"
  mail :: "'m mail_client"
  str_of_value :: "json \<Rightarrow> string"

text \<open>
  \<^verbatim>\<open>config.yaml\<close> as far as the program reads it. The e-mail keys are read when the module is
  loaded; \<^verbatim>\<open>config['redmine']['default_project_id']\<close> is read at each use and raises
  \<open>KeyError\<close> when the key is missing (\<open>None\<close>).
\<close>

record config =
  email_imap_server :: json
  email_smtp_server :: json
  email_port :: json
  email_username :: json
  email_password :: json
  email_check_interval :: int
  redmine_default_project_id :: "json option"

text \<open>
  The module binds these names to configuration values (lines 51 to 56 of the source). Its
  other global names are modules, functions, \<^verbatim>\<open>logger\<close>, \<^verbatim>\<open>app\<close>, \<^verbatim>\<open>config\<close> and
  \<^verbatim>\<open>redmine\<close>. Reading a name that is neither bound nor a builtin raises \<open>NameError\<close>.
\<close>

definition module_globals :: "config \<Rightarrow> (string \<times> json) list" where
  "module_globals cfg =
     [(''EMAIL_IMAP_SERVER'', email_imap_server cfg),
      (''EMAIL_SMTP_SERVER'', email_smtp_server cfg),
      (''EMAIL_PORT'', email_port cfg),
      (''EMAIL_USER'', email_username cfg),
      (''EMAIL_PASSWORD'', email_password cfg),
      (''EMAIL_CHECK_INTERVAL'', JInt (email_check_interval cfg))]"

definition load_global :: "config \<Rightarrow> string \<Rightarrow> exn + json" where
  "load_global cfg name =
     (case map_of (module_globals cfg) name of
        None \<Rightarrow> Inl (NameError name)
      | Some v \<Rightarrow> Inr v)"

subsection \<open>The world and its history\<close>

datatype event =
    RedmineCreate issue_data "exn + issue"
  | RedmineGet json "string list" "exn + issue"
  | RedmineUpdate json string "exn + unit"
  | RedmineFilter filter_query "exn + issue list"
  | SendEmailCall json string string
  | SmtpSend email_message "exn + unit"
  | ImapOpen "exn + unit"
  | ImapSearch "exn + string \<times> string list"
  | ImapFetch string "exn + string \<times> mail_message"
  | ImapStore string "exn + unit"
  | ImapClose "exn + unit"

record ('r, 'm) world =
  tracker :: 'r
  mailbox :: 'm
  clock :: int
  trace :: "event list"

definition emit :: "event \<Rightarrow> ('r, 'm) world \<Rightarrow> ('r, 'm) world" where
  "emit ev w = w\<lparr>trace := trace w @ [ev]\<rparr>"

definition format_value :: "('r, 'm) services \<Rightarrow> json \<Rightarrow> string" where
  "format_value E v = (case v of JStr s \<Rightarrow> s | _ \<Rightarrow> str_of_value E v)"

subsection \<open>Redmine functions\<close>

definition create_redmine_issue ::
  "('r, 'm) services \<Rightarrow> json \<Rightarrow> string \<Rightarrow> json \<Rightarrow> ('r, 'm) world \<Rightarrow> issue option \<times> ('r, 'm) world" where
  "create_redmine_issue E subject description project_id w =
     (let issue_data = \<lparr>new_project_id = project_id, new_subject = subject,
                         new_description = description\<rparr>;
          (r, b) = issue_create (redmine E) issue_data (tracker w);
          w' = emit (RedmineCreate issue_data r) (w\<lparr>tracker := b\<rparr>)
      in case r of Inl e \<Rightarrow> (None, w') | Inr i \<Rightarrow> (Some i, w'))"

text \<open>
  \<^verbatim>\<open>update_redmine_issue\<close> first reads the ticket, then updates it; its only caller passes
  \<^verbatim>\<open>notes=comment\<close>. Both \<^verbatim>\<open>except\<close> branches return \<^verbatim>\<open>False\<close>.
\<close>

definition update_redmine_issue ::
  "('r, 'm) services \<Rightarrow> json \<Rightarrow> string \<Rightarrow> ('r, 'm) world \<Rightarrow> bool \<times> ('r, 'm) world" where
  "update_redmine_issue E issue_id notes w =
     (case issue_get (redmine E) issue_id [] (tracker w) of
        Inl e \<Rightarrow> (False, emit (RedmineGet issue_id [] (Inl e)) w)
      | Inr i \<Rightarrow>
          (let w1 = emit (RedmineGet issue_id [] (Inr i)) w;
               (r, b) = issue_update (redmine E) issue_id notes (tracker w1);
               w2 = emit (RedmineUpdate issue_id notes r) (w1\<lparr>tracker := b\<rparr>)
           in case r of Inl e \<Rightarrow> (False, w2) | Inr u \<Rightarrow> (True, w2)))"

definition add_comment_to_redmine_issue ::
  "('r, 'm) services \<Rightarrow> json \<Rightarrow> string \<Rightarrow> ('r, 'm) world \<Rightarrow> bool \<times> ('r, 'm) world" where
  "add_comment_to_redmine_issue E issue_id comment w = update_redmine_issue E issue_id comment w"

definition get_redmine_issue ::
  "('r, 'm) services \<Rightarrow> json \<Rightarrow> ('r, 'm) world \<Rightarrow> issue option \<times> ('r, 'm) world" where
  "get_redmine_issue E issue_id w =
     (let r = issue_get (redmine E) issue_id [''journals'', ''attachments''] (tracker w);
          w' = emit (RedmineGet issue_id [''journals'', ''attachments''] r) w
      in case r of Inl e \<Rightarrow> (None, w') | Inr i \<Rightarrow> (Some i, w'))"

subsection \<open>E-mail functions\<close>

text \<open>
  \<^verbatim>\<open>send_email\<close> builds the message and then evaluates
  \<^verbatim>\<open>smtplib.SMTP(EMAIL_SERVER, EMAIL_PORT)\<close> inside its \<^verbatim>\<open>try\<close>. Callers never pass
  \<^verbatim>\<open>cc\<close> or \<^verbatim>\<open>attachments\<close>.
\<close>

definition send_email ::
  "('r, 'm) services \<Rightarrow> config \<Rightarrow> json \<Rightarrow> string \<Rightarrow> string \<Rightarrow> ('r, 'm) world \<Rightarrow> bool \<times> ('r, 'm) world" where
  "send_email E cfg to_email subject body w =
     (let w0 = emit (SendEmailCall to_email subject body) w in
      case load_global cfg ''EMAIL_USER'' of
        Inl e \<Rightarrow> (False, w0)
      | Inr user \<Rightarrow>
          (let msg = \<lparr>out_subject = subject, out_from = user, out_to = to_email,
                      out_content = body\<rparr>
           in case load_global cfg ''EMAIL_SERVER'' of
                Inl e \<Rightarrow> (False, w0)
              | Inr server \<Rightarrow>
                  (case load_global cfg ''EMAIL_PORT'' of
                     Inl e \<Rightarrow> (False, w0)
                   | Inr port \<Rightarrow>
                       (case load_global cfg ''EMAIL_PASSWORD'' of
                          Inl e \<Rightarrow> (False, w0)
                        | Inr password \<Rightarrow>
                            (let (r, b) = smtp_send (mail E) server port user password msg (mailbox w0);
                                 w1 = emit (SmtpSend msg r) (w0\<lparr>mailbox := b\<rparr>)
                             in case r of Inl e \<Rightarrow> (False, w1) | Inr u \<Rightarrow> (True, w1))))))"

subsection \<open>Message texts\<close>

definition confirmation_subject :: "issue \<Rightarrow> string" where
  "confirmation_subject i =
     ''[Redmine #'' @ str_int (iss_id i) @ ''] Votre demande a '' @ [CHR 0xE9] @ ''t''
     @ [CHR 0xE9] @ '' enregistr'' @ [CHR 0xE9] @ ''e''"

definition confirmation_body :: "issue \<Rightarrow> string" where
  "confirmation_body i =
     [CHR 0x0A] @ ''Bonjour,'' @ [CHR 0x0A, CHR 0x0A] @ ''Votre demande a '' @ [CHR 0xE9]
     @ ''t'' @ [CHR 0xE9] @ '' enregistr'' @ [CHR 0xE9] @ ''e dans notre syst'' @ [CHR 0xE8]
     @ ''me avec le num'' @ [CHR 0xE9] @ ''ro de ticket #'' @ str_int (iss_id i) @ ''.''
     @ [CHR 0x0A] @ ''Vous pouvez suivre l'' @ [CHR 0x27, CHR 0xE9]
     @ ''volution de votre demande en r'' @ [CHR 0xE9] @ ''pondant '' @ [CHR 0xE0]
     @ '' cet e-mail.'' @ [CHR 0x0A, CHR 0x0A] @ ''Cordialement,'' @ [CHR 0x0A] @ ''L''
     @ [CHR 0x27, CHR 0xE9] @ ''quipe support'' @ [CHR 0x0A] @ ''                ''"

definition update_subject :: "issue \<Rightarrow> string" where
  "update_subject i =
     ''[Redmine #'' @ str_int (iss_id i) @ ''] Mise '' @ [CHR 0xE0] @ '' jour: '' @ iss_subject i"

definition journal_update_body :: "issue \<Rightarrow> string \<Rightarrow> string" where
  "journal_update_body i notes =
     [CHR 0x0A] @ ''Bonjour,'' @ [CHR 0x0A, CHR 0x0A] @ ''Une mise '' @ [CHR 0xE0]
     @ '' jour a '' @ [CHR 0xE9] @ ''t'' @ [CHR 0xE9] @ '' effectu'' @ [CHR 0xE9]
     @ ''e sur votre ticket #'' @ str_int (iss_id i) @ '':'' @ [CHR 0x0A, CHR 0x0A] @ notes
     @ [CHR 0x0A, CHR 0x0A] @ ''Vous pouvez r'' @ [CHR 0xE9] @ ''pondre '' @ [CHR 0xE0]
     @ '' cet e-mail pour ajouter un commentaire au ticket.'' @ [CHR 0x0A, CHR 0x0A]
     @ ''Cordialement,'' @ [CHR 0x0A] @ ''L'' @ [CHR 0x27, CHR 0xE9] @ ''quipe support''
     @ [CHR 0x0A] @ ''                        ''"

definition webhook_update_body :: "issue \<Rightarrow> string" where
  "webhook_update_body i =
     [CHR 0x0A] @ ''Bonjour,'' @ [CHR 0x0A, CHR 0x0A] @ ''Une mise '' @ [CHR 0xE0]
     @ '' jour a '' @ [CHR 0xE9] @ ''t'' @ [CHR 0xE9] @ '' effectu'' @ [CHR 0xE9]
     @ ''e sur votre ticket #'' @ str_int (iss_id i) @ ''.'' @ [CHR 0x0A, CHR 0x0A]
     @ ''Vous pouvez r'' @ [CHR 0xE9] @ ''pondre '' @ [CHR 0xE0]
     @ '' cet e-mail pour ajouter un commentaire au ticket.'' @ [CHR 0x0A, CHR 0x0A]
     @ ''Cordialement,'' @ [CHR 0x0A] @ ''L'' @ [CHR 0x27, CHR 0xE9] @ ''quipe support''
     @ [CHR 0x0A] @ ''                    ''"

definition ticket_description :: "string \<Rightarrow> string \<Rightarrow> string" where
  "ticket_description from_email body = ''De: '' @ from_email @ [CHR 0x0A, CHR 0x0A] @ body"

definition comment_text :: "string \<Rightarrow> string \<Rightarrow> string" where
  "comment_text from_email body =
     ''Commentaire par e-mail de '' @ from_email @ '':'' @ [CHR 0x0A, CHR 0x0A] @ body"

subsection \<open>The e-mail webhook\<close>

text \<open>
  A response is the JSON body and the status code. The three bodies the handlers produce are
  \<^verbatim>\<open>{"status": "success"}\<close>, the fixed message \<^verbatim>\<open>{"error": "Donnees JSON invalides"}\<close> (with its accent) and
  \<^verbatim>\<open>{"error": str(e)}\<close>. The handler's argument is what reading \<^verbatim>\<open>request.json\<close> gives:
  a value, or the exception Flask raises.
\<close>

datatype payload = StatusSuccess | ErrorInvalidJson | ErrorException exn

type_synonym response = "payload \<times> nat"

definition search_subject :: "json \<Rightarrow> exn + string option" where
  "search_subject subject = (case subject of JStr s \<Rightarrow> Inr (re_search s) | _ \<Rightarrow> Inl TypeError)"

definition email_payload_invalid :: "json \<Rightarrow> exn + bool" where
  "email_payload_invalid d =
     (if \<not> truthy d then Inr True
      else case py_contains ''from'' d of
        Inl e \<Rightarrow> Inl e
      | Inr False \<Rightarrow> Inr True
      | Inr True \<Rightarrow>
          (case py_contains ''subject'' d of
             Inl e \<Rightarrow> Inl e
           | Inr False \<Rightarrow> Inr True
           | Inr True \<Rightarrow>
               (case py_contains ''body'' d of
                  Inl e \<Rightarrow> Inl e
                | Inr False \<Rightarrow> Inr True
                | Inr True \<Rightarrow> Inr False)))"

definition email_webhook_body ::
  "('r, 'm) services \<Rightarrow> config \<Rightarrow> json \<Rightarrow> ('r, 'm) world \<Rightarrow> (exn + response) \<times> ('r, 'm) world" where
  "email_webhook_body E cfg d w =
     (case email_payload_invalid d of
        Inl e \<Rightarrow> (Inl e, w)
      | Inr True \<Rightarrow> (Inr (ErrorInvalidJson, 400), w)
      | Inr False \<Rightarrow>
     (case py_getitem d ''from'' of Inl e \<Rightarrow> (Inl e, w) | Inr from_email \<Rightarrow>
     (case py_getitem d ''subject'' of Inl e \<Rightarrow> (Inl e, w) | Inr subject \<Rightarrow>
     (case py_getitem d ''body'' of Inl e \<Rightarrow> (Inl e, w) | Inr body \<Rightarrow>
     (case search_subject subject of
        Inl e \<Rightarrow> (Inl e, w)
      | Inr (Some ticket_id) \<Rightarrow>
          (let (ok, w1) = add_comment_to_redmine_issue E (JStr ticket_id)
                 (comment_text (format_value E from_email) (format_value E body)) w
           in (Inr (StatusSuccess, 200), w1))
      | Inr None \<Rightarrow>
          (let description = ticket_description (format_value E from_email) (format_value E body)
           in case redmine_default_project_id cfg of
                None \<Rightarrow> (Inl (KeyError ''default_project_id''), w)
              | Some project_id \<Rightarrow>
                  (let (created, w1) = create_redmine_issue E subject description project_id w
                   in case created of
                        None \<Rightarrow> (Inr (StatusSuccess, 200), w1)
                      | Some i \<Rightarrow>
                          (let (sent, w2) = send_email E cfg from_email (confirmation_subject i)
                                              (confirmation_body i) w1
                           in (Inr (StatusSuccess, 200), w2)))))))))"

definition email_webhook ::
  "('r, 'm) services \<Rightarrow> config \<Rightarrow> exn + json \<Rightarrow> ('r, 'm) world \<Rightarrow> response \<times> ('r, 'm) world" where
  "email_webhook E cfg request_json w =
     (case request_json of
        Inl e \<Rightarrow> ((ErrorException e, 500), w)
      | Inr d \<Rightarrow>
          (case email_webhook_body E cfg d w of
             (Inl e, w') \<Rightarrow> ((ErrorException e, 500), w')
           | (Inr resp, w') \<Rightarrow> (resp, w')))"

subsection \<open>The Redmine webhook\<close>

definition redmine_webhook_body ::
  "('r, 'm) services \<Rightarrow> config \<Rightarrow> json \<Rightarrow> ('r, 'm) world \<Rightarrow> (exn + response) \<times> ('r, 'm) world" where
  "redmine_webhook_body E cfg d w =
     (if \<not> truthy d then (Inr (ErrorInvalidJson, 400), w)
      else case py_contains ''issue'' d of
        Inl e \<Rightarrow> (Inl e, w)
      | Inr False \<Rightarrow> (Inr (StatusSuccess, 200), w)
      | Inr True \<Rightarrow>
     (case py_getitem d ''issue'' of Inl e \<Rightarrow> (Inl e, w) | Inr iss \<Rightarrow>
     (case py_getitem iss ''id'' of Inl e \<Rightarrow> (Inl e, w) | Inr issue_id \<Rightarrow>
       (let (found, w1) = get_redmine_issue E issue_id w
        in case found of
             None \<Rightarrow> (Inr (StatusSuccess, 200), w1)
           | Some i \<Rightarrow>
               (case iss_description i of
                  None \<Rightarrow> (Inl AttributeError, w1)
                | Some description \<Rightarrow>
                    (case extract_requester description of
                       None \<Rightarrow> (Inr (StatusSuccess, 200), w1)
                     | Some requester_email \<Rightarrow>
                         if requester_email = [] then (Inr (StatusSuccess, 200), w1)
                         else (let (sent, w2) = send_email E cfg (JStr requester_email)
                                                  (update_subject i) (webhook_update_body i) w1
                               in (Inr (StatusSuccess, 200), w2))))))))"

definition redmine_webhook ::
  "('r, 'm) services \<Rightarrow> config \<Rightarrow> exn + json \<Rightarrow> ('r, 'm) world \<Rightarrow> response \<times> ('r, 'm) world" where
  "redmine_webhook E cfg request_json w =
     (case request_json of
        Inl e \<Rightarrow> ((ErrorException e, 500), w)
      | Inr d \<Rightarrow>
          (case redmine_webhook_body E cfg d w of
             (Inl e, w') \<Rightarrow> ((ErrorException e, 500), w')
           | (Inr resp, w') \<Rightarrow> (resp, w')))"

subsection \<open>The periodic scan of the tracker\<close>

text \<open>
  \<open>notify_journals\<close> is the loop over \<^verbatim>\<open>issue_detail.journals\<close>, \<open>scan_issues\<close> the loop over
  the tickets of the query. An exception raised in either leaves both loops and is caught by
  the \<^verbatim>\<open>except Exception\<close> of \<^verbatim>\<open>process_redmine_updates\<close> (line 256), which ends the scan.
\<close>

fun notify_journals ::
  "('r, 'm) services \<Rightarrow> config \<Rightarrow> issue \<Rightarrow> string \<Rightarrow> int \<Rightarrow> journal list \<Rightarrow> ('r, 'm) world \<Rightarrow>
     (exn + unit) \<times> ('r, 'm) world" where
  "notify_journals E cfg iss requester_email updated_since [] w = (Inr (), w)"
| "notify_journals E cfg iss requester_email updated_since (j # js) w =
     (case journal_created_on j of
        None \<Rightarrow> notify_journals E cfg iss requester_email updated_since js w
      | Some created_on \<Rightarrow>
          (case datetime_ge_int created_on updated_since of
             Inl e \<Rightarrow> (Inl e, w)
           | Inr False \<Rightarrow> notify_journals E cfg iss requester_email updated_since js w
           | Inr True \<Rightarrow>
               (case journal_notes j of
                  None \<Rightarrow> notify_journals E cfg iss requester_email updated_since js w
                | Some n \<Rightarrow>
                    if n \<noteq> [] then
                      notify_journals E cfg iss requester_email updated_since js
                        (snd (send_email E cfg (JStr requester_email) (update_subject iss)
                                (journal_update_body iss n) w))
                    else notify_journals E cfg iss requester_email updated_since js w)))"

fun scan_issues ::
  "('r, 'm) services \<Rightarrow> config \<Rightarrow> int \<Rightarrow> issue list \<Rightarrow> ('r, 'm) world \<Rightarrow> (exn + unit) \<times> ('r, 'm) world" where
  "scan_issues E cfg updated_since [] w = (Inr (), w)"
| "scan_issues E cfg updated_since (iss # rest) w =
     (case get_redmine_issue E (JInt (iss_id iss)) w of
        (None, w1) \<Rightarrow> scan_issues E cfg updated_since rest w1
      | (Some issue_detail, w1) \<Rightarrow>
          (case iss_description issue_detail of
             None \<Rightarrow> (Inl AttributeError, w1)
           | Some description \<Rightarrow>
               (case extract_requester description of
                  None \<Rightarrow> scan_issues E cfg updated_since rest w1
                | Some requester_email \<Rightarrow>
                    if requester_email = [] then scan_issues E cfg updated_since rest w1
                    else
                      (case notify_journals E cfg iss requester_email updated_since
                              (iss_journals issue_detail) w1 of
                         (Inl e, w2) \<Rightarrow> (Inl e, w2)
                       | (Inr u, w2) \<Rightarrow> scan_issues E cfg updated_since rest w2))))"

definition recent_issues_query :: filter_query where
  "recent_issues_query =
     \<lparr>q_updated_on = ''>=2000-01-01T00:00:00Z'', q_sort = ''updated_on:desc'', q_limit = 100\<rparr>"

definition process_redmine_updates :: "('r, 'm) services \<Rightarrow> config \<Rightarrow> ('r, 'm) world \<Rightarrow> ('r, 'm) world" where
  "process_redmine_updates E cfg w =
     (let updated_since = clock w - email_check_interval cfg * 60;
          r = issue_filter (redmine E) recent_issues_query (tracker w);
          w1 = emit (RedmineFilter recent_issues_query r) w
      in case r of
           Inl e \<Rightarrow> w1
         | Inr issues \<Rightarrow> snd (scan_issues E cfg updated_since issues w1))"

subsection \<open>The periodic poll of the mailbox\<close>

text \<open>
  \<open>handle_unseen\<close> is the body of the \<^verbatim>\<open>for num in data[0].split()\<close> loop; an exception in
  it leaves the loop and ends the poll in the outer \<^verbatim>\<open>except\<close>.
\<close>

fun walk_for_body :: "mail_part list \<Rightarrow> exn + string" where
  "walk_for_body [] = Inr []"
| "walk_for_body (p # ps) =
     (if \<not> is_substring ''attachment'' (part_content_disposition p) then
        (if part_content_type p = ''text/plain'' then part_text p
         else walk_for_body ps)
      else walk_for_body ps)"

definition message_body :: "mail_message \<Rightarrow> exn + string" where
  "message_body m = (if msg_is_multipart m then walk_for_body (msg_parts m) else msg_text m)"

definition handle_unseen ::
  "('r, 'm) services \<Rightarrow> config \<Rightarrow> string \<Rightarrow> ('r, 'm) world \<Rightarrow> (exn + unit) \<times> ('r, 'm) world" where
  "handle_unseen E cfg num w =
     (let (f, b) = imap_fetch (mail E) num (mailbox w);
          w1 = emit (ImapFetch num f) (w\<lparr>mailbox := b\<rparr>)
      in case f of
           Inl e \<Rightarrow> (Inl e, w1)
         | Inr (status, m) \<Rightarrow>
             if status \<noteq> ''OK'' then (Inr (), w1)
             else
               (case message_body m of
                  Inl e \<Rightarrow> (Inl e, w1)
                | Inr body \<Rightarrow>
                    (let description = ticket_description (msg_from m) body
                     in case redmine_default_project_id cfg of
                          None \<Rightarrow> (Inl (KeyError ''default_project_id''), w1)
                        | Some project_id \<Rightarrow>
                            (let (created, w2) =
                                   create_redmine_issue E (msg_subject m) description project_id w1
                             in case created of
                                  None \<Rightarrow> (Inr (), w2)
                                | Some i \<Rightarrow>
                                    (let (s, b3) = imap_store_seen (mail E) num (mailbox w2);
                                         w3 = emit (ImapStore num s) (w2\<lparr>mailbox := b3\<rparr>)
                                     in case s of
                                          Inl e \<Rightarrow> (Inl e, w3)
                                        | Inr u \<Rightarrow>
                                            (let (sent, w4) =
                                                   send_email E cfg (JStr (msg_from m))
                                                     (confirmation_subject i) (confirmation_body i) w3
                                             in (Inr (), w4)))))))"

fun check_emails_loop ::
  "('r, 'm) services \<Rightarrow> config \<Rightarrow> string list \<Rightarrow> ('r, 'm) world \<Rightarrow> (exn + unit) \<times> ('r, 'm) world" where
  "check_emails_loop E cfg [] w = (Inr (), w)"
| "check_emails_loop E cfg (num # nums) w =
     (case handle_unseen E cfg num w of
        (Inl e, w1) \<Rightarrow> (Inl e, w1)
      | (Inr u, w1) \<Rightarrow> check_emails_loop E cfg nums w1)"

definition check_emails_session ::
  "('r, 'm) services \<Rightarrow> config \<Rightarrow> json \<Rightarrow> ('r, 'm) world \<Rightarrow> (exn + unit) \<times> ('r, 'm) world" where
  "check_emails_session E cfg server w =
     (case load_global cfg ''EMAIL_USER'' of Inl e \<Rightarrow> (Inl e, w) | Inr user \<Rightarrow>
     (case load_global cfg ''EMAIL_PASSWORD'' of Inl e \<Rightarrow> (Inl e, w) | Inr password \<Rightarrow>
       (let (opened, b1) = imap_open (mail E) server user password (mailbox w);
            w1 = emit (ImapOpen opened) (w\<lparr>mailbox := b1\<rparr>)
        in case opened of
             Inl e \<Rightarrow> (Inl e, w1)
           | Inr u \<Rightarrow>
               (let (found, b2) = imap_search_unseen (mail E) (mailbox w1);
                    w2 = emit (ImapSearch found) (w1\<lparr>mailbox := b2\<rparr>)
                in case found of
                     Inl e \<Rightarrow> (Inl e, w2)
                   | Inr (status, nums) \<Rightarrow>
                       if status \<noteq> ''OK'' then (Inr (), w2)
                       else
                         (case check_emails_loop E cfg nums w2 of
                            (Inl e, w3) \<Rightarrow> (Inl e, w3)
                          | (Inr u, w3) \<Rightarrow>
                              (let (closed, b4) = imap_close (mail E) (mailbox w3);
                                   w4 = emit (ImapClose closed) (w3\<lparr>mailbox := b4\<rparr>)
                               in (closed, w4)))))))"

definition check_emails :: "('r, 'm) services \<Rightarrow> config \<Rightarrow> ('r, 'm) world \<Rightarrow> ('r, 'm) world" where
  "check_emails E cfg w =
     (case load_global cfg ''EMAIL_SERVER'' of
        Inl e \<Rightarrow> w
      | Inr server \<Rightarrow> snd (check_emails_session E cfg server w))"

subsection \<open>Reading the history\<close>

text \<open>
  \<open>events_since w w'\<close> is what a run from \<open>w\<close> to \<open>w'\<close> added to the history.
  \<open>mail_requests\<close> keeps the calls of \<^verbatim>\<open>send_email\<close> as (recipient, subject, body);
  \<open>redmine_calls\<close> keeps the calls to the tracker.
\<close>

definition events_since :: "('r, 'm) world \<Rightarrow> ('r, 'm) world \<Rightarrow> event list" where
  "events_since w w' = drop (length (trace w)) (trace w')"

fun is_redmine_call :: "event \<Rightarrow> bool" where
  "is_redmine_call (RedmineCreate d r) = True"
| "is_redmine_call (RedmineGet k includes r) = True"
| "is_redmine_call (RedmineUpdate k notes r) = True"
| "is_redmine_call (RedmineFilter q r) = True"
| "is_redmine_call e = False"

fun is_ticket_read :: "event \<Rightarrow> bool" where
  "is_ticket_read (RedmineGet k includes r) = True"
| "is_ticket_read e = False"

fun is_mutation :: "event \<Rightarrow> bool" where
  "is_mutation (RedmineCreate d r) = True"
| "is_mutation (RedmineUpdate k notes r) = True"
| "is_mutation e = False"

fun is_comment :: "event \<Rightarrow> bool" where
  "is_comment (RedmineUpdate k notes r) = True"
| "is_comment e = False"

fun mail_request :: "event \<Rightarrow> (json \<times> string \<times> string) list" where
  "mail_request (SendEmailCall a s b) = [(a, s, b)]"
| "mail_request e = []"

definition redmine_calls :: "event list \<Rightarrow> event list" where
  "redmine_calls tr = filter is_redmine_call tr"

definition mail_requests :: "event list \<Rightarrow> (json \<times> string \<times> string) list" where
  "mail_requests tr = concat (map mail_request tr)"

subsection \<open>The scan as a function of the tracker\<close>

text \<open>
  What \<^verbatim>\<open>process_redmine_updates\<close> adds to the history, written as a function of the
  tracker's state alone; \<open>scan_issues_closed\<close> below proves that the loops do exactly this.
\<close>

definition has_creation_time :: "journal \<Rightarrow> bool" where
  "has_creation_time j = (journal_created_on j \<noteq> None)"

fun scan_events :: "('r, 'm) services \<Rightarrow> 'r \<Rightarrow> issue list \<Rightarrow> event list" where
  "scan_events E r [] = []"
| "scan_events E r (iss # rest) =
     (let g = issue_get (redmine E) (JInt (iss_id iss)) [''journals'', ''attachments''] r;
          ev = RedmineGet (JInt (iss_id iss)) [''journals'', ''attachments''] g
      in case g of
           Inl e \<Rightarrow> ev # scan_events E r rest
         | Inr d \<Rightarrow>
             (case iss_description d of
                None \<Rightarrow> [ev]
              | Some description \<Rightarrow>
                  (case extract_requester description of
                     None \<Rightarrow> ev # scan_events E r rest
                   | Some requester_email \<Rightarrow>
                       if requester_email = [] then ev # scan_events E r rest
                       else if list_ex has_creation_time (iss_journals d) then [ev]
                       else ev # scan_events E r rest)))"

subsection \<open>A small tracker and mailbox\<close>

text \<open>
  A tracker that keeps its tickets in a list (most recently updated first) and a mailbox that
  keeps its unread messages, and a tracker that refuses every call. They instantiate the
  general statements below and carry the concrete runs.
\<close>

record demo_tracker =
  tickets :: "issue list"
  next_id :: int
  today :: int

record demo_mailbox =
  unseen :: "(string \<times> mail_message) list"
  delivered :: "email_message list"

definition ticket_key :: "json \<Rightarrow> int option" where
  "ticket_key k =
     (case k of
        JInt n \<Rightarrow> Some n
      | JStr s \<Rightarrow> if s \<noteq> [] \<and> list_all is_digit s then Some (int_of_digits s) else None
      | _ \<Rightarrow> None)"

definition demo_lookup :: "json \<Rightarrow> demo_tracker \<Rightarrow> issue option" where
  "demo_lookup k r =
     (case ticket_key k of
        None \<Rightarrow> None
      | Some n \<Rightarrow> find (\<lambda>i. iss_id i = n) (tickets r))"

definition demo_redmine :: "demo_tracker redmine_client" where
  "demo_redmine =
     \<lparr>issue_create = (\<lambda>d r.
        (let i = \<lparr>iss_id = next_id r,
                   iss_subject = (case new_subject d of JStr s \<Rightarrow> s | _ \<Rightarrow> []),
                   iss_description = Some (new_description d),
                   iss_journals = []\<rparr>
         in (Inr i, r\<lparr>tickets := i # tickets r, next_id := next_id r + 1\<rparr>))),
      issue_get = (\<lambda>k includes r.
        (case demo_lookup k r of None \<Rightarrow> Inl ResourceNotFoundError | Some i \<Rightarrow> Inr i)),
      issue_update = (\<lambda>k notes r.
        (case demo_lookup k r of
           None \<Rightarrow> (Inl ResourceNotFoundError, r)
         | Some t \<Rightarrow>
             (Inr (),
              r\<lparr>tickets :=
                   map (\<lambda>i. if iss_id i = iss_id t
                             then i\<lparr>iss_journals := iss_journals i @
                                    [\<lparr>journal_created_on = Some (Datetime (today r)),
                                      journal_notes = Some notes\<rparr>]\<rparr>
                             else i) (tickets r)\<rparr>))),
      issue_filter = (\<lambda>q r. Inr (take (q_limit q) (tickets r)))\<rparr>"

definition down_redmine :: "demo_tracker redmine_client" where
  "down_redmine =
     \<lparr>issue_create = (\<lambda>d r. (Inl (LibraryError ''connection refused''), r)),
      issue_get = (\<lambda>k includes r. Inl (LibraryError ''connection refused'')),
      issue_update = (\<lambda>k notes r. (Inl (LibraryError ''connection refused''), r)),
      issue_filter = (\<lambda>q r. Inl (LibraryError ''connection refused''))\<rparr>"

definition demo_mail :: "demo_mailbox mail_client" where
  "demo_mail =
     \<lparr>smtp_send = (\<lambda>server port user password msg m.
        (Inr (), m\<lparr>delivered := delivered m @ [msg]\<rparr>)),
      imap_open = (\<lambda>server user password m. (Inr (), m)),
      imap_search_unseen = (\<lambda>m. (Inr (''OK'', map fst (unseen m)), m)),
      imap_fetch = (\<lambda>num m.
        (case map_of (unseen m) num of
           None \<Rightarrow> (Inl (LibraryError ''no such message''), m)
         | Some x \<Rightarrow> (Inr (''OK'', x), m))),
      imap_store_seen = (\<lambda>num m. (Inr (), m\<lparr>unseen := filter (\<lambda>p. fst p \<noteq> num) (unseen m)\<rparr>)),
      imap_close = (\<lambda>m. (Inr (), m))\<rparr>"

definition demo_services :: "(demo_tracker, demo_mailbox) services" where
  "demo_services = \<lparr>redmine = demo_redmine, mail = demo_mail, str_of_value = (\<lambda>v. ''<value>'')\<rparr>"

definition down_services :: "(demo_tracker, demo_mailbox) services" where
  "down_services = \<lparr>redmine = down_redmine, mail = demo_mail, str_of_value = (\<lambda>v. ''<value>'')\<rparr>"

definition demo_config :: config where
  "demo_config =
     \<lparr>email_imap_server = JStr ''imap.example.org'',
      email_smtp_server = JStr ''smtp.example.org'',
      email_port = JInt 587,
      email_username = JStr ''support@example.org'',
      email_password = JStr ''secret'',
      email_check_interval = 5,
      redmine_default_project_id = Some (JStr ''support'')\<rparr>"

definition ticket7 :: issue where
  "ticket7 =
     \<lparr>iss_id = 7, iss_subject = ''Printer'',
      iss_description = Some (''De: a@b.com'' @ [CHR 0x0A, CHR 0x0A] @ ''it is broken''),
      iss_journals =
        [\<lparr>journal_created_on = Some (Datetime 699), journal_notes = Some ''old note''\<rparr>,
         \<lparr>journal_created_on = Some (Datetime 700), journal_notes = Some ''on the boundary''\<rparr>,
         \<lparr>journal_created_on = Some (Datetime 800), journal_notes = Some []\<rparr>,
         \<lparr>journal_created_on = Some (Datetime 900), journal_notes = Some ''fixed''\<rparr>]\<rparr>"

definition reply_mail :: mail_message where
  "reply_mail =
     \<lparr>msg_subject = JStr ''[Redmine #7] thanks'', msg_from = ''a@b.com'',
      msg_is_multipart = False, msg_parts = [], msg_text = Inr ''thanks a lot''\<rparr>"

definition demo_world :: "(demo_tracker, demo_mailbox) world" where
  "demo_world =
     \<lparr>tracker = \<lparr>tickets = [ticket7], next_id = 8, today = 1000\<rparr>,
      mailbox = \<lparr>unseen = [(''1'', reply_mail)], delivered = []\<rparr>,
      clock = 1000, trace = []\<rparr>"

definition empty_world :: "(demo_tracker, demo_mailbox) world" where
  "empty_world =
     \<lparr>tracker = \<lparr>tickets = [], next_id = 1, today = 1000\<rparr>,
      mailbox = \<lparr>unseen = [], delivered = []\<rparr>,
      clock = 1000, trace = []\<rparr>"

definition mail_json :: "string \<Rightarrow> string \<Rightarrow> string \<Rightarrow> json" where
  "mail_json f s b = JObj [(''from'', JStr f), (''subject'', JStr s), (''body'', JStr b)]"

definition help_mail :: json where
  "help_mail = mail_json ''a@b.com'' ''Need help'' (''it'' @ [CHR 0x27] @ ''s broken'')"

definition help_ticket :: issue where
  "help_ticket =
     \<lparr>iss_id = 1, iss_subject = ''Need help'',
      iss_description = Some (''De: a@b.com'' @ [CHR 0x0A, CHR 0x0A] @ ''it'' @ [CHR 0x27] @ ''s broken''),
      iss_journals = []\<rparr>"

definition locked_mail :: "demo_mailbox mail_client" where
  \<comment> \<open>A mailbox that refuses to store flags.\<close>
  "locked_mail =
     demo_mail\<lparr>imap_store_seen := (\<lambda>num m. (Inl (LibraryError ''STORE failed''), m))\<rparr>"

definition flagging_mail :: "demo_mailbox mail_client" where
  \<comment> \<open>A mailbox whose fetch flags the message as seen, as a fetch of \<^verbatim>\<open>RFC822\<close> does on an
      IMAP server.\<close>
  "flagging_mail =
     demo_mail\<lparr>imap_fetch := (\<lambda>num m.
        (case map_of (unseen m) num of
           None \<Rightarrow> (Inl (LibraryError ''no such message''), m)
         | Some x \<Rightarrow> (Inr (''OK'', x), m\<lparr>unseen := filter (\<lambda>p. fst p \<noteq> num) (unseen m)\<rparr>)))\<rparr>"

definition locked_services :: "(demo_tracker, demo_mailbox) services" where
  "locked_services = demo_services\<lparr>mail := locked_mail\<rparr>"

definition flagging_down_services :: "(demo_tracker, demo_mailbox) services" where
  "flagging_down_services = down_services\<lparr>mail := flagging_mail\<rparr>"

definition later_world :: "(demo_tracker, demo_mailbox) world" where
  "later_world =
     demo_world\<lparr>mailbox := \<lparr>unseen = [], delivered = []\<rparr>,
                 trace := [ImapClose (Inr ())]\<rparr>"

definition thanks_ticket :: issue where
  "thanks_ticket =
     \<lparr>iss_id = 8, iss_subject = ''[Redmine #7] thanks'',
      iss_description = Some (''De: a@b.com'' @ [CHR 0x0A, CHR 0x0A] @ ''thanks a lot''),
      iss_journals = []\<rparr>"

definition thanks_data :: issue_data where
  "thanks_data =
     \<lparr>new_project_id = JStr ''support'', new_subject = JStr ''[Redmine #7] thanks'',
      new_description = ''De: a@b.com'' @ [CHR 0x0A, CHR 0x0A] @ ''thanks a lot''\<rparr>"

section \<open>Properties\<close>

subsection \<open>Decimal numbers\<close>

lemma digit_char_is_digit: "d < 10 \<Longrightarrow> is_digit (digit_char d)"
proof -
  assume "d < 10"
  then have "d \<in> {0,1,2,3,4,5,6,7,8,9}" by auto
  then show ?thesis by (auto simp: is_digit_def digit_char_def)
qed

lemma str_nat_digits: "list_all is_digit (str_nat n)"
proof (induction n rule: str_nat.induct)
  case (1 n)
  show ?case
  proof (cases "n < 10")
    case True
    then show ?thesis by (simp add: str_nat.simps[of n] digit_char_is_digit)
  next
    case False
    with 1 show ?thesis by (simp add: str_nat.simps[of n] digit_char_is_digit)
  qed
qed

lemma str_nat_nonempty: "str_nat n \<noteq> []"
  by (subst str_nat.simps) simp

lemma digit_val: "d < 10 \<Longrightarrow> int (of_char (digit_char d) - 48) = int d"
proof -
  assume "d < 10"
  then have "d \<in> {0,1,2,3,4,5,6,7,8,9}" by auto
  then show ?thesis by (auto simp: digit_char_def)
qed

lemma int_of_digits_snoc: "int_of_digits (ds @ [c]) = 10 * int_of_digits ds + int (of_char c - 48)"
  by (simp add: int_of_digits_def)

lemma int_of_digits_str_nat: "int_of_digits (str_nat n) = int n"
proof (induction n rule: str_nat.induct)
  case (1 n)
  show ?case
  proof (cases "n < 10")
    case True
    then show ?thesis by (simp add: str_nat.simps[of n] int_of_digits_def digit_val)
  next
    case False
    with 1 have "int_of_digits (str_nat (n div 10)) = int (n div 10)" by simp
    moreover have "10 * int (n div 10) + int (n mod 10) = int n" by presburger
    ultimately show ?thesis using False
      by (simp add: str_nat.simps[of n] int_of_digits_snoc digit_val)
  qed
qed

lemma int_of_digits_str_int: "0 \<le> n \<Longrightarrow> int_of_digits (str_int n) = n"
  by (simp add: str_int_def int_of_digits_str_nat)

lemma str_int_digits: "0 \<le> n \<Longrightarrow> list_all is_digit (str_int n) \<and> str_int n \<noteq> []"
  by (simp add: str_int_def str_nat_digits str_nat_nonempty)

subsection \<open>Searching for the tag\<close>

lemma not_digit_close: "\<not> is_digit CHR '']''" "\<not> is_digit CHR ''[''"
  by (simp_all add: is_digit_def)

lemma match_at_tag:
  assumes "list_all is_digit ds" "ds \<noteq> []"
  shows "match_at (tag_open @ ds @ '']'' @ suf) = Some ds"
proof -
  have tw: "takeWhile is_digit (ds @ '']'' @ suf) = ds"
    using assms(1) by (simp add: takeWhile_tail not_digit_close list_all_iff)
  have dw: "dropWhile is_digit (ds @ '']'' @ suf) = '']'' @ suf"
    using assms(1) by (simp add: dropWhile_append not_digit_close list_all_iff)
  show ?thesis
    using assms(2) tw dw by (simp add: match_at_def startswith_def Let_def)
qed

lemma match_at_SomeD:
  assumes "match_at s = Some ds"
  shows "\<exists>t. s = tag_open @ ds @ '']'' @ t \<and> ds \<noteq> [] \<and> list_all is_digit ds"
proof -
  define r where "r = drop (length tag_open) s"
  from assms have sw: "startswith s tag_open"
    by (simp add: match_at_def split: if_splits)
  from assms sw have ds: "ds = takeWhile is_digit r" and ne: "ds \<noteq> []"
    and cl: "startswith (dropWhile is_digit r) '']''"
    by (auto simp: match_at_def Let_def r_def split: if_splits)
  from cl obtain t where t: "dropWhile is_digit r = '']'' @ t"
    by (cases "dropWhile is_digit r") (auto simp: startswith_def)
  have "s = take (length tag_open) s @ r" by (simp add: r_def)
  also have "take (length tag_open) s = tag_open" using sw by (simp add: startswith_def)
  also have "r = takeWhile is_digit r @ dropWhile is_digit r" by simp
  finally have "s = tag_open @ ds @ '']'' @ t" using ds t by simp
  moreover have "list_all is_digit ds"
    unfolding ds list_all_iff by (auto dest: set_takeWhileD)
  ultimately show ?thesis using ne by blast
qed

lemma length_tag_open: "length tag_open = 10"
  by (simp add: tag_open_def)

lemma tag_open_inner: "0 < i \<Longrightarrow> i < 10 \<Longrightarrow> tag_open ! i \<noteq> CHR ''[''"
proof -
  assume "0 < i" "i < 10"
  then have "i \<in> {1,2,3,4,5,6,7,8,9}" by auto
  then show ?thesis by (auto simp: tag_open_def)
qed

lemma no_match_extend:
  assumes "x \<noteq> []" "match_at x = None"
  shows "match_at (x @ CHR ''['' # y) = None"
proof (rule ccontr)
  assume "match_at (x @ CHR ''['' # y) \<noteq> None"
  then obtain ds where "match_at (x @ CHR ''['' # y) = Some ds" by auto
  from match_at_SomeD[OF this] obtain t where
    eq0: "x @ CHR ''['' # y = tag_open @ ds @ '']'' @ t" and ne: "ds \<noteq> []"
    and dg: "list_all is_digit ds" by blast
  define m where "m = tag_open @ ds @ '']''"
  have eq: "x @ CHR ''['' # y = m @ t" using eq0 by (simp add: m_def)
  have len: "length m = 10 + length ds + 1" by (simp add: m_def length_tag_open)
  show False
  proof (cases "length m \<le> length x")
    case True
    from eq have "take (length x) (x @ CHR ''['' # y) = take (length x) (m @ t)" by simp
    then have "x = m @ take (length x - length m) t" using True by simp
    then have "x = tag_open @ ds @ '']'' @ take (length x - length m) t" by (simp add: m_def)
    then have "match_at x = Some ds" using match_at_tag[OF dg ne] by metis
    with assms(2) show False by simp
  next
    case False
    then have lt: "length x < length m" by simp
    have "(x @ CHR ''['' # y) ! length x = CHR ''[''" by simp
    with eq have "(m @ t) ! length x = CHR ''[''" by simp
    then have c: "m ! length x = CHR ''[''" using lt by (simp add: nth_append)
    have pos: "0 < length x" using assms(1) by simp
    consider "length x < 10" | "10 \<le> length x" "length x < 10 + length ds" | "length x = 10 + length ds"
      using lt len by linarith
    then show False
    proof cases
      case 1
      then have "m ! length x = tag_open ! length x" by (simp add: m_def nth_append length_tag_open)
      with c tag_open_inner[OF pos 1] show False by simp
    next
      case 2
      then have "length x - 10 < length ds" by linarith
      with 2 have "m ! length x = ds ! (length x - 10)" by (simp add: m_def nth_append length_tag_open)
      moreover have "is_digit (ds ! (length x - 10))" using dg 2 by (simp add: list_all_length)
      ultimately show False using c not_digit_close by simp
    next
      case 3
      then have "m ! length x = CHR '']''" by (simp add: m_def nth_append length_tag_open)
      with c show False by simp
    qed
  qed
qed

lemma re_search_None_Cons: "re_search (c # cs) = None \<longleftrightarrow> match_at (c # cs) = None \<and> re_search cs = None"
  by (cases "match_at (c # cs)") auto

lemma re_search_skip:
  assumes "re_search pre = None" "match_at (CHR ''['' # y) = Some ds"
  shows "re_search (pre @ CHR ''['' # y) = Some ds"
  using assms
proof (induction pre)
  case Nil
  then show ?case by simp
next
  case (Cons c cs)
  from Cons.prems(1)[unfolded re_search_None_Cons]
  have m: "match_at (c # cs) = None" and r: "re_search cs = None" by simp_all
  have "match_at ((c # cs) @ CHR ''['' # y) = None" by (rule no_match_extend[OF _ m]) simp
  then show ?case using Cons.IH[OF r Cons.prems(2)] by simp
qed
lemma re_search_finds: "match_at t \<noteq> None \<Longrightarrow> re_search (pre @ t) \<noteq> None"
proof (induction pre)
  case Nil
  then show ?case by (cases t) (auto split: option.splits)
next
  case (Cons c cs)
  then show ?case by (auto split: option.splits)
qed

lemma re_search_SomeD: "re_search s = Some ds \<Longrightarrow> \<exists>pre. match_at (drop (length pre) s) = Some ds \<and> pre = take (length pre) s \<and> length pre \<le> length s"
proof (induction s)
  case Nil
  then show ?case by simp
next
  case (Cons c cs)
  show ?case
  proof (cases "match_at (c # cs)")
    case None
    with Cons.prems have "re_search cs = Some ds" by simp
    from Cons.IH[OF this] obtain pre where p: "match_at (drop (length pre) cs) = Some ds"
      "pre = take (length pre) cs" "length pre \<le> length cs" by blast
    then have "match_at (drop (length (c # pre)) (c # cs)) = Some ds \<and> c # pre = take (length (c # pre)) (c # cs) \<and> length (c # pre) \<le> length (c # cs)" by simp
    then show ?thesis by blast
  next
    case (Some a)
    with Cons.prems have "match_at (drop (length ([]::string)) (c # cs)) = Some ds" by simp
    then show ?thesis by (metis take0 list.size(3) le0)
  qed
qed

lemma re_search_None_iff: "re_search s = None \<longleftrightarrow> \<not> contains_tag s"
proof
  assume n: "re_search s = None"
  show "\<not> contains_tag s"
  proof
    assume "contains_tag s"
    then obtain pre ds suf where s: "s = pre @ tag_open @ ds @ '']'' @ suf" and "ds \<noteq> []" "list_all is_digit ds"
      unfolding contains_tag_def by blast
    then have "match_at (tag_open @ ds @ '']'' @ suf) \<noteq> None" using match_at_tag by simp
    from re_search_finds[OF this, of pre] s n show False by simp
  qed
next
  assume nc: "\<not> contains_tag s"
  show "re_search s = None"
  proof (rule ccontr)
    assume "re_search s \<noteq> None"
    then obtain ds where "re_search s = Some ds" by auto
    from re_search_SomeD[OF this] obtain pre :: string where m: "match_at (drop (length pre) s) = Some ds" by auto
    from match_at_SomeD[OF m] obtain t where "drop (length pre) s = tag_open @ ds @ '']'' @ t" "ds \<noteq> []" "list_all is_digit ds" by blast
    then have "s = take (length pre) s @ tag_open @ ds @ '']'' @ t \<and> ds \<noteq> [] \<and> list_all is_digit ds"
      by (metis append_take_drop_id)
    then have "contains_tag s" unfolding contains_tag_def by blast
    with nc show False by simp
  qed
qed

lemma match_at_encode_tag: "0 \<le> n \<Longrightarrow> match_at (encode_tag n @ suf) = Some (str_int n)"
  using match_at_tag[of "str_int n" suf] str_int_digits[of n]
  by (simp add: encode_tag_def)

lemma re_search_encode_tag:
  assumes "0 \<le> n" "re_search pre = None"
  shows "re_search (pre @ encode_tag n @ suf) = Some (str_int n)"
proof -
  obtain y where y: "encode_tag n @ suf = CHR ''['' # y"
    by (simp add: encode_tag_def tag_open_def)
  with match_at_encode_tag[OF assms(1), of suf] have "match_at (CHR ''['' # y) = Some (str_int n)"
    by simp
  from re_search_skip[OF assms(2) this] y show ?thesis by simp
qed

subsection \<open>Finding the requester\<close>

lemma split_on_nonempty: "split_on c s \<noteq> []"
  by (induction s) (auto split: list.splits)

lemma split_on_line: "c \<notin> set l \<Longrightarrow> split_on c (l @ c # rest) = l # split_on c rest"
  by (induction l) (auto split: list.splits simp: split_on_nonempty)

lemma replace_none: "\<not> is_substring p s \<Longrightarrow> replace_with_empty p s = s"
proof (induction s)
  case Nil
  then show ?case by (subst replace_with_empty.simps) simp
next
  case (Cons c cs)
  then have "\<not> startswith (c # cs) p" and "replace_with_empty p cs = cs" by simp_all
  then show ?case by (subst replace_with_empty.simps) simp
qed

lemma replace_prefix: "p \<noteq> [] \<Longrightarrow> replace_with_empty p (p @ s) = replace_with_empty p s"
  by (subst replace_with_empty.simps) (simp add: startswith_def)

lemma find_requester_skip:
  "(\<forall>l \<in> set ls. \<not> startswith l ''De:'') \<Longrightarrow> find_requester (ls @ rest) = find_requester rest"
  by (induction ls) auto

lemma find_requester_None: "(\<forall>l \<in> set ls. \<not> startswith l ''De:'') \<Longrightarrow> find_requester ls = None"
  using find_requester_skip[of ls "[]"] by simp

lemma find_requester_header:
  assumes "\<not> is_substring ''De:'' r"
  shows "find_requester ((''De:'' @ r) # rest) = Some (strip r)"
proof -
  have "replace_with_empty ''De:'' (''De:'' @ r) = r"
    using replace_prefix[of "''De:''" r] replace_none[OF assms] by simp
  moreover have "startswith (''De:'' @ r) ''De:''" by (simp add: startswith_def)
  ultimately show ?thesis by simp
qed

subsection \<open>The functions in closed form\<close>

lemma trace_emit [simp]: "trace (emit e w) = trace w @ [e]"
  and tracker_emit [simp]: "tracker (emit e w) = tracker w"
  and mailbox_emit [simp]: "mailbox (emit e w) = mailbox w"
  and clock_emit [simp]: "clock (emit e w) = clock w"
  by (simp_all add: emit_def)

lemma events_since_append: "trace w' = trace w @ xs \<Longrightarrow> events_since w w' = xs"
  by (simp add: events_since_def)

lemma events_since_self [simp]: "events_since w w = []"
  by (simp add: events_since_def)

text \<open>
  The module binds \<^verbatim>\<open>EMAIL_IMAP_SERVER\<close> and \<^verbatim>\<open>EMAIL_SMTP_SERVER\<close> but no name
  \<^verbatim>\<open>EMAIL_SERVER\<close>, which \<^verbatim>\<open>send_email\<close> (line 136) and \<^verbatim>\<open>check_emails\<close> (line 150) read.
  Reading it raises \<open>NameError\<close>, which the \<^verbatim>\<open>except Exception\<close> of either function catches:
  \<^verbatim>\<open>send_email\<close> returns \<^verbatim>\<open>False\<close> before it opens a connection, and \<^verbatim>\<open>check_emails\<close> ends before
  it opens the mailbox.
\<close>

lemma load_global_defined:
  "load_global cfg ''EMAIL_USER'' = Inr (email_username cfg)"
  "load_global cfg ''EMAIL_PASSWORD'' = Inr (email_password cfg)"
  "load_global cfg ''EMAIL_PORT'' = Inr (email_port cfg)"
  by (simp_all add: load_global_def module_globals_def)

lemma load_global_EMAIL_SERVER:
  "load_global cfg ''EMAIL_SERVER'' = Inl (NameError ''EMAIL_SERVER'')"
  by (simp add: load_global_def module_globals_def)

lemma send_email_result:
  "send_email E cfg a s b w = (False, emit (SendEmailCall a s b) w)"
  by (simp add: send_email_def load_global_defined load_global_EMAIL_SERVER)

lemma check_emails_aborts: "check_emails E cfg w = w"
  by (simp add: check_emails_def load_global_EMAIL_SERVER)

lemma create_redmine_issue_result:
  "issue_create (redmine E) \<lparr>new_project_id = p, new_subject = s, new_description = d\<rparr> (tracker w) = (r, t) \<Longrightarrow>
   create_redmine_issue E s d p w =
     ((case r of Inl e \<Rightarrow> None | Inr i \<Rightarrow> Some i),
      emit (RedmineCreate \<lparr>new_project_id = p, new_subject = s, new_description = d\<rparr> r) (w\<lparr>tracker := t\<rparr>))"
  by (simp add: create_redmine_issue_def split: sum.splits)

lemma key_present: "map_of kvs k = Some v \<Longrightarrow> k \<in> fst ` set kvs"
  by (metis map_of_SomeD fst_conv image_eqI)

lemma email_payload_valid:
  assumes "map_of kvs ''from'' = Some f" "map_of kvs ''subject'' = Some s" "map_of kvs ''body'' = Some b"
  shows "email_payload_invalid (JObj kvs) = Inr False"
proof -
  have "kvs \<noteq> []" using assms(1) by auto
  then show ?thesis
    using key_present[OF assms(1)] key_present[OF assms(2)] key_present[OF assms(3)]
    by (simp add: email_payload_invalid_def)
qed

lemma email_webhook_tagged:
  assumes "map_of kvs ''from'' = Some f" "map_of kvs ''subject'' = Some (JStr s)"
    "map_of kvs ''body'' = Some b" "re_search s = Some ticket_id"
  shows "email_webhook E cfg (Inr (JObj kvs)) w =
           ((StatusSuccess, 200),
            snd (update_redmine_issue E (JStr ticket_id)
                   (comment_text (format_value E f) (format_value E b)) w))"
  using assms email_payload_valid[OF assms(1-3)]
  by (simp add: email_webhook_def email_webhook_body_def search_subject_def
      add_comment_to_redmine_issue_def split: prod.splits)

lemma email_webhook_untagged:
  assumes "map_of kvs ''from'' = Some f" "map_of kvs ''subject'' = Some (JStr s)"
    "map_of kvs ''body'' = Some b" "re_search s = None"
    "redmine_default_project_id cfg = Some p"
    "issue_create (redmine E)
       \<lparr>new_project_id = p, new_subject = JStr s,
        new_description = ticket_description (format_value E f) (format_value E b)\<rparr> (tracker w) = (r, t)"
  shows "email_webhook E cfg (Inr (JObj kvs)) w =
           ((StatusSuccess, 200),
            (let w1 = emit (RedmineCreate
                        \<lparr>new_project_id = p, new_subject = JStr s,
                         new_description = ticket_description (format_value E f) (format_value E b)\<rparr> r)
                        (w\<lparr>tracker := t\<rparr>)
             in case r of
                  Inl e \<Rightarrow> w1
                | Inr i \<Rightarrow> emit (SendEmailCall f (confirmation_subject i) (confirmation_body i)) w1))"
  using assms(1-5) email_payload_valid[OF assms(1-3)] create_redmine_issue_result[OF assms(6)]
  by (simp add: email_webhook_def email_webhook_body_def search_subject_def
      send_email_result Let_def split: sum.splits)

lemma update_redmine_issue_missing:
  "issue_get (redmine E) k [] (tracker w) = Inl e \<Longrightarrow>
   update_redmine_issue E k notes w = (False, emit (RedmineGet k [] (Inl e)) w)"
  by (simp add: update_redmine_issue_def)

lemma update_redmine_issue_found:
  "issue_get (redmine E) k [] (tracker w) = Inr i \<Longrightarrow>
   issue_update (redmine E) k notes (tracker w) = (r, t) \<Longrightarrow>
   update_redmine_issue E k notes w =
     ((case r of Inl e \<Rightarrow> False | Inr u \<Rightarrow> True),
      emit (RedmineUpdate k notes r) ((emit (RedmineGet k [] (Inr i)) w)\<lparr>tracker := t\<rparr>))"
  by (simp add: update_redmine_issue_def split: sum.splits)

lemma format_value_str: "format_value E (JStr x) = x"
  by (simp add: format_value_def)

lemma events_since_emit1: "events_since w (emit a (w\<lparr>tracker := t\<rparr>)) = [a]"
  and events_since_emit2: "events_since w (emit b (emit a (w\<lparr>tracker := t\<rparr>))) = [a, b]"
  and events_since_emit1': "events_since w (emit a w) = [a]"
  and events_since_emit2': "events_since w (emit b ((emit a w)\<lparr>tracker := t\<rparr>)) = [a, b]"
  by (simp_all add: events_since_def)

lemma confirmation_subject_tag: "startswith (confirmation_subject i) (encode_tag (iss_id i))"
  by (simp add: startswith_def confirmation_subject_def encode_tag_def tag_open_def)

lemma email_payload_missing:
  assumes "k \<in> {''from'', ''subject'', ''body''}" "k \<notin> fst ` set kvs"
  shows "email_payload_invalid (JObj kvs) = Inr True"
  using assms by (auto simp: email_payload_invalid_def split: bool.splits)

lemma email_webhook_invalid:
  "email_payload_invalid d = Inr True \<Longrightarrow>
   email_webhook E cfg (Inr d) w = ((ErrorInvalidJson, 400), w)"
  by (simp add: email_webhook_def email_webhook_body_def)

lemma redmine_webhook_empty:
  "\<not> truthy d \<Longrightarrow> redmine_webhook E cfg (Inr d) w = ((ErrorInvalidJson, 400), w)"
  by (simp add: redmine_webhook_def redmine_webhook_body_def)

lemma redmine_webhook_status:
  "truthy d \<Longrightarrow> snd (fst (redmine_webhook E cfg (Inr d) w)) \<in> {200, 500}"
  by (auto simp: redmine_webhook_def redmine_webhook_body_def get_redmine_issue_def
      send_email_result Let_def
      split: sum.splits option.splits prod.splits bool.splits if_splits)

lemma redmine_webhook_no_issue:
  "kvs \<noteq> [] \<Longrightarrow> ''issue'' \<notin> fst ` set kvs \<Longrightarrow>
   redmine_webhook E cfg (Inr (JObj kvs)) w = ((StatusSuccess, 200), w)"
  by (simp add: redmine_webhook_def redmine_webhook_body_def)

subsection \<open>The scan in closed form\<close>

lemma notify_journals_closed:
  "notify_journals E cfg iss rq W js w =
     ((if list_ex has_creation_time js then Inl TypeError else Inr ()), w)"
  by (induction js) (auto simp: has_creation_time_def datetime_ge_int_def split: option.splits)

lemma scan_issues_closed:
  "snd (scan_issues E cfg W issues w) = w\<lparr>trace := trace w @ scan_events E (tracker w) issues\<rparr>"
proof (induction issues arbitrary: w)
  case Nil
  then show ?case by simp
next
  case (Cons iss rest)
  show ?case
    by (auto simp: Cons.IH get_redmine_issue_def notify_journals_closed Let_def emit_def
        split: sum.splits option.splits)
qed

lemma process_redmine_updates_closed:
  "process_redmine_updates E cfg w =
     w\<lparr>trace := trace w @
        RedmineFilter recent_issues_query (issue_filter (redmine E) recent_issues_query (tracker w))
        # (case issue_filter (redmine E) recent_issues_query (tracker w) of
             Inl e \<Rightarrow> []
           | Inr issues \<Rightarrow> scan_events E (tracker w) issues)\<rparr>"
  by (simp add: process_redmine_updates_def Let_def scan_issues_closed emit_def split: sum.splits)

lemma scan_events_are_reads:
  "e \<in> set (scan_events E r issues) \<Longrightarrow>
   \<exists>iss \<in> set issues. \<exists>g. e = RedmineGet (JInt (iss_id iss)) [''journals'', ''attachments''] g"
  by (induction issues) (auto simp: Let_def split: sum.splits option.splits if_splits)

lemma no_send_in_scan: "SendEmailCall a s b \<notin> set (scan_events E r issues)"
  using scan_events_are_reads by fastforce

lemma get_in_scan:
  "RedmineGet k inc g \<in> set (scan_events E r issues) \<Longrightarrow> \<exists>iss \<in> set issues. k = JInt (iss_id iss)"
  using scan_events_are_reads by fastforce

lemma no_filter_in_scan: "RedmineFilter q x \<notin> set (scan_events E r issues)"
  using scan_events_are_reads by fastforce

lemma reads_in_scan: "length (filter is_ticket_read (scan_events E r issues)) \<le> length issues"
  by (induction issues) (auto simp: Let_def split: sum.splits option.splits)

lemma events_since_scan:
  "events_since w (process_redmine_updates E cfg w) =
     RedmineFilter recent_issues_query (issue_filter (redmine E) recent_issues_query (tracker w))
     # (case issue_filter (redmine E) recent_issues_query (tracker w) of
          Inl e \<Rightarrow> []
        | Inr issues \<Rightarrow> scan_events E (tracker w) issues)"
  by (simp add: process_redmine_updates_closed events_since_def)

subsection \<open>One message of the poll\<close>

lemma handle_unseen_cases:
  fixes E :: "('r, 'm) services"
  obtains
    (fetch_failed) e mb where
      "imap_fetch (mail E) num (mailbox w) = (Inl e, mb)"
      "handle_unseen E cfg num w = (Inl e, emit (ImapFetch num (Inl e)) (w\<lparr>mailbox := mb\<rparr>))"
  | (not_ok) status m mb where
      "imap_fetch (mail E) num (mailbox w) = (Inr (status, m), mb)" "status \<noteq> ''OK''"
      "handle_unseen E cfg num w = (Inr (), emit (ImapFetch num (Inr (status, m))) (w\<lparr>mailbox := mb\<rparr>))"
  | (no_body) m mb e where
      "imap_fetch (mail E) num (mailbox w) = (Inr (''OK'', m), mb)" "message_body m = Inl e"
      "handle_unseen E cfg num w = (Inl e, emit (ImapFetch num (Inr (''OK'', m))) (w\<lparr>mailbox := mb\<rparr>))"
  | (no_project) m mb body where
      "imap_fetch (mail E) num (mailbox w) = (Inr (''OK'', m), mb)" "message_body m = Inr body"
      "redmine_default_project_id cfg = None"
      "handle_unseen E cfg num w =
         (Inl (KeyError ''default_project_id''),
          emit (ImapFetch num (Inr (''OK'', m))) (w\<lparr>mailbox := mb\<rparr>))"
  | (create_failed) m mb body p e t where
      "imap_fetch (mail E) num (mailbox w) = (Inr (''OK'', m), mb)" "message_body m = Inr body"
      "redmine_default_project_id cfg = Some p"
      "issue_create (redmine E)
         \<lparr>new_project_id = p, new_subject = msg_subject m,
          new_description = ticket_description (msg_from m) body\<rparr> (tracker w) = (Inl e, t)"
      "handle_unseen E cfg num w =
         (Inr (),
          emit (RedmineCreate \<lparr>new_project_id = p, new_subject = msg_subject m,
                  new_description = ticket_description (msg_from m) body\<rparr> (Inl e))
            ((emit (ImapFetch num (Inr (''OK'', m))) (w\<lparr>mailbox := mb\<rparr>))\<lparr>tracker := t\<rparr>))"
  | (store_failed) m mb body p i t e mb' where
      "imap_fetch (mail E) num (mailbox w) = (Inr (''OK'', m), mb)" "message_body m = Inr body"
      "redmine_default_project_id cfg = Some p"
      "issue_create (redmine E)
         \<lparr>new_project_id = p, new_subject = msg_subject m,
          new_description = ticket_description (msg_from m) body\<rparr> (tracker w) = (Inr i, t)"
      "imap_store_seen (mail E) num mb = (Inl e, mb')"
      "handle_unseen E cfg num w =
         (Inl e,
          emit (ImapStore num (Inl e))
            ((emit (RedmineCreate \<lparr>new_project_id = p, new_subject = msg_subject m,
                     new_description = ticket_description (msg_from m) body\<rparr> (Inr i))
               ((emit (ImapFetch num (Inr (''OK'', m))) (w\<lparr>mailbox := mb\<rparr>))\<lparr>tracker := t\<rparr>))
             \<lparr>mailbox := mb'\<rparr>))"
  | (filed) m mb body p i t mb' where
      "imap_fetch (mail E) num (mailbox w) = (Inr (''OK'', m), mb)" "message_body m = Inr body"
      "redmine_default_project_id cfg = Some p"
      "issue_create (redmine E)
         \<lparr>new_project_id = p, new_subject = msg_subject m,
          new_description = ticket_description (msg_from m) body\<rparr> (tracker w) = (Inr i, t)"
      "imap_store_seen (mail E) num mb = (Inr (), mb')"
      "handle_unseen E cfg num w =
         (Inr (),
          emit (SendEmailCall (JStr (msg_from m)) (confirmation_subject i) (confirmation_body i))
            (emit (ImapStore num (Inr ()))
              ((emit (RedmineCreate \<lparr>new_project_id = p, new_subject = msg_subject m,
                       new_description = ticket_description (msg_from m) body\<rparr> (Inr i))
                 ((emit (ImapFetch num (Inr (''OK'', m))) (w\<lparr>mailbox := mb\<rparr>))\<lparr>tracker := t\<rparr>))
               \<lparr>mailbox := mb'\<rparr>)))"
proof -
  obtain f mb where f: "imap_fetch (mail E) num (mailbox w) = (f, mb)" by (cases "imap_fetch (mail E) num (mailbox w)")
  show ?thesis
  proof (cases f)
    case (Inl e)
    with f show ?thesis by (intro fetch_failed[of e mb]) (simp_all add: handle_unseen_def)
  next
    case (Inr sm)
    obtain status m where sm: "sm = (status, m)" by (cases sm)
    show ?thesis
    proof (cases "status = ''OK''")
      case False
      with f Inr sm show ?thesis by (intro not_ok[of status m mb]) (simp_all add: handle_unseen_def)
    next
      case True
      note ok = f[unfolded Inr sm True]
      show ?thesis
      proof (cases "message_body m")
        case (Inl e)
        with ok show ?thesis by (intro no_body[of m mb e]) (simp_all add: handle_unseen_def)
      next
        case body: (Inr body)
        show ?thesis
        proof (cases "redmine_default_project_id cfg")
          case None
          with ok body show ?thesis by (intro no_project[of m mb body]) (simp_all add: handle_unseen_def)
        next
          case (Some p)
          obtain r t where c: "issue_create (redmine E)
             \<lparr>new_project_id = p, new_subject = msg_subject m,
              new_description = ticket_description (msg_from m) body\<rparr> (tracker w) = (r, t)"
            by (cases "issue_create (redmine E)
             \<lparr>new_project_id = p, new_subject = msg_subject m,
              new_description = ticket_description (msg_from m) body\<rparr> (tracker w)")
          show ?thesis
          proof (cases r)
            case (Inl e)
            with ok body Some c show ?thesis
              by (intro create_failed[of m mb body p e t])
                (simp_all add: handle_unseen_def create_redmine_issue_def)
          next
            case i: (Inr i)
            obtain s mb' where s: "imap_store_seen (mail E) num mb = (s, mb')"
              by (cases "imap_store_seen (mail E) num mb")
            show ?thesis
            proof (cases s)
              case (Inl e)
              with ok body Some c i s show ?thesis
                by (intro store_failed[of m mb body p i t e mb'])
                  (simp_all add: handle_unseen_def create_redmine_issue_def)
            next
              case (Inr u)
              with ok body Some c i s show ?thesis
                by (intro filed[of m mb body p i t mb'])
                  (simp_all add: handle_unseen_def create_redmine_issue_def send_email_result)
            qed
          qed
        qed
      qed
    qed
  qed
qed

lemma handle_unseen_appends:
  "\<exists>xs. trace (snd (handle_unseen E cfg num w)) = trace w @ xs
        \<and> (\<forall>e \<in> set xs. \<not> is_ticket_read e \<and> \<not> is_comment e)"
  by (cases E cfg num w rule: handle_unseen_cases) simp_all

lemma check_emails_loop_appends:
  "\<exists>xs. trace (snd (check_emails_loop E cfg nums w)) = trace w @ xs
        \<and> (\<forall>e \<in> set xs. \<not> is_ticket_read e \<and> \<not> is_comment e)"
proof (induction nums arbitrary: w)
  case Nil
  then show ?case by simp
next
  case (Cons num nums)
  obtain r w1 where h: "handle_unseen E cfg num w = (r, w1)" by (cases "handle_unseen E cfg num w")
  from handle_unseen_appends[of E cfg num w] h obtain xs where
    xs: "trace w1 = trace w @ xs" "\<forall>e \<in> set xs. \<not> is_ticket_read e \<and> \<not> is_comment e" by auto
  show ?case
  proof (cases r)
    case (Inl e)
    with h xs show ?thesis by simp
  next
    case (Inr u)
    from Cons.IH[of w1] obtain ys where
      ys: "trace (snd (check_emails_loop E cfg nums w1)) = trace w1 @ ys"
      "\<forall>e \<in> set ys. \<not> is_ticket_read e \<and> \<not> is_comment e" by auto
    have "trace (snd (check_emails_loop E cfg (num # nums) w)) = trace w @ (xs @ ys)"
      using h Inr xs(1) ys(1) by simp
    moreover have "\<forall>e \<in> set (xs @ ys). \<not> is_ticket_read e \<and> \<not> is_comment e"
      using xs(2) ys(2) by auto
    ultimately show ?thesis by blast
  qed
qed

subsection \<open>The history only grows\<close>

text \<open>
  Every entry point adds events at the end of the history and changes nothing that was in
  it, so \<open>events_since\<close> is what the run did.
\<close>

lemma update_redmine_issue_appends:
  "update_redmine_issue E k notes w = (r, w') \<Longrightarrow> \<exists>xs. trace w' = trace w @ xs"
  by (cases "issue_update (redmine E) k notes (tracker w)")
    (auto simp: update_redmine_issue_def Let_def split: sum.splits)

lemma create_redmine_issue_appends:
  "create_redmine_issue E s d p w = (r, w') \<Longrightarrow> \<exists>xs. trace w' = trace w @ xs"
  by (cases "issue_create (redmine E) \<lparr>new_project_id = p, new_subject = s, new_description = d\<rparr> (tracker w)")
    (auto simp: create_redmine_issue_def Let_def split: sum.splits)

lemma email_webhook_appends:
  "\<exists>xs. trace (snd (email_webhook E cfg request_json w)) = trace w @ xs"
proof (cases request_json)
  case (Inl e)
  then show ?thesis by (simp add: email_webhook_def)
next
  case (Inr d)
  have "\<exists>xs. trace (snd (email_webhook_body E cfg d w)) = trace w @ xs"
    by (auto simp: email_webhook_body_def add_comment_to_redmine_issue_def send_email_result
        Let_def dest: update_redmine_issue_appends create_redmine_issue_appends
        split: sum.splits option.splits prod.splits bool.splits)
  with Inr show ?thesis by (auto simp: email_webhook_def split: sum.splits prod.splits)
qed

lemma redmine_webhook_appends:
  "\<exists>xs. trace (snd (redmine_webhook E cfg request_json w)) = trace w @ xs"
  by (auto simp: redmine_webhook_def redmine_webhook_body_def get_redmine_issue_def
      send_email_result Let_def
      split: sum.splits option.splits prod.splits bool.splits if_splits)

lemma process_redmine_updates_appends:
  "\<exists>xs. trace (process_redmine_updates E cfg w) = trace w @ xs"
  by (simp add: process_redmine_updates_closed)

section \<open>The claims\<close>

lemmas demo_defs =
  demo_services_def demo_redmine_def demo_mail_def demo_config_def demo_world_def
  empty_world_def ticket7_def reply_mail_def mail_json_def demo_lookup_def ticket_key_def
  down_services_def down_redmine_def

subsection \<open>C1: a reply that names a ticket the tracker does not know\<close>

text \<open>
  C1 says that a message whose subject carries a tag for a ticket the tracker reports as not
  found is handled like an untagged one, so that a new ticket is created. The handler does
  not do that. On the small tracker, which holds ticket 7 only, a reply tagged with ticket 42
  is answered 200 after one failed read of ticket 42: no ticket is created and the tracker
  still holds exactly ticket 7.
\<close>

theorem unknown_ticket_reply_creates_nothing:
  "email_webhook demo_services demo_config
     (Inr (mail_json ''a@b.com'' ''[Redmine #42] Re: help'' ''still broken'')) demo_world
   = ((StatusSuccess, 200),
      demo_world\<lparr>trace := [RedmineGet (JStr ''42'') [] (Inl ResourceNotFoundError)]\<rparr>)
   \<and> tickets (tracker (snd (email_webhook demo_services demo_config
         (Inr (mail_json ''a@b.com'' ''[Redmine #42] Re: help'' ''still broken'')) demo_world)))
       = [ticket7]"
  by code_simp

text \<open>
  C1 as amended: when the body has the three fields, the subject is a string in which the
  pattern is found, and the tracker answers the read of the tagged ticket with "not found",
  the handler answers 200 "success" and its only effect is that one failed read: no ticket is
  created, no comment is added and \<^verbatim>\<open>send_email\<close> is not called.
\<close>

theorem unknown_ticket_reply_is_dropped:
  assumes "map_of kvs ''from'' = Some f" "map_of kvs ''subject'' = Some (JStr s)"
    "map_of kvs ''body'' = Some b" "re_search s = Some ticket_id"
    "issue_get (redmine E) (JStr ticket_id) [] (tracker w) = Inl ResourceNotFoundError"
  shows "email_webhook E cfg (Inr (JObj kvs)) w =
           ((StatusSuccess, 200),
            emit (RedmineGet (JStr ticket_id) [] (Inl ResourceNotFoundError)) w)"
  by (simp add: email_webhook_tagged[OF assms(1-4)] update_redmine_issue_missing[OF assms(5)])

theorem unknown_ticket_reply_is_dropped_witness:
  "email_webhook demo_services demo_config
     (Inr (JObj [(''from'', JStr ''a@b.com''), (''subject'', JStr ''Re: [Redmine #42] help''),
                 (''body'', JStr ''still broken'')])) empty_world
   = ((StatusSuccess, 200),
      emit (RedmineGet (JStr ''42'') [] (Inl ResourceNotFoundError)) empty_world)"
proof -
  have s: "re_search ''Re: [Redmine #42] help'' = Some ''42''" by code_simp
  have g: "issue_get (redmine demo_services) (JStr ''42'') [] (tracker empty_world)
             = Inl ResourceNotFoundError" by code_simp
  show ?thesis
    by (rule unknown_ticket_reply_is_dropped[OF _ _ _ s g]) simp_all
qed

subsection \<open>C2: the mailbox poll and the e-mail webhook\<close>

text \<open>
  C2 says that the poll treats each unread message as the e-mail webhook does, adding a
  comment to the ticket its tag names. The small mailbox holds one unread message, a reply
  tagged with ticket 7, which the tracker knows. The webhook, given the same message, reads
  ticket 7 and adds the comment. The poll leaves the world as it is; and the body of its
  loop, run on that message, files a new ticket with the tagged subject.
\<close>

theorem poll_ignores_the_tag:
  "unseen (mailbox demo_world) = [(''1'', reply_mail)]
   \<and> msg_subject reply_mail = JStr ''[Redmine #7] thanks''
   \<and> issue_get (redmine demo_services) (JStr ''7'') [] (tracker demo_world) = Inr ticket7
   \<and> check_emails demo_services demo_config demo_world = demo_world
   \<and> redmine_calls (events_since demo_world
         (snd (handle_unseen demo_services demo_config ''1'' demo_world)))
       = [RedmineCreate thanks_data (Inr thanks_ticket)]
   \<and> redmine_calls (events_since demo_world
         (snd (email_webhook demo_services demo_config
            (Inr (mail_json ''a@b.com'' ''[Redmine #7] thanks'' ''thanks a lot'')) demo_world)))
       = [RedmineGet (JStr ''7'') [] (Inr ticket7),
          RedmineUpdate (JStr ''7'')
            (''Commentaire par e-mail de a@b.com:'' @ [CHR 0x0A, CHR 0x0A] @ ''thanks a lot'') (Inr ())]"
  by code_simp

text \<open>
  C2 as amended: the code that handles one unread message never reads a ticket and never
  adds a comment, for one message and for any list of messages; whenever the message is
  fetched, its text is decoded and the project is configured, its only call to the tracker
  is the creation of a ticket with the message's subject and the description
  \<^verbatim>\<open>De: <sender>\<close>, an empty line and the text, whether or not the subject holds a tag.
\<close>

theorem poll_files_every_message:
  fixes E :: "('r, 'm) services" and cfg :: config and w :: "('r, 'm) world" and num :: string
  defines "new \<equiv> events_since w (snd (handle_unseen E cfg num w))"
  shows
    "(\<forall>e \<in> set new. \<not> is_ticket_read e \<and> \<not> is_comment e)
     \<and> (imap_fetch (mail E) num (mailbox w) = (Inr (''OK'', m), mb) \<longrightarrow>
          message_body m = Inr body \<longrightarrow> redmine_default_project_id cfg = Some p \<longrightarrow>
          (\<exists>r. redmine_calls new =
             [RedmineCreate
                \<lparr>new_project_id = p, new_subject = msg_subject m,
                 new_description = ''De: '' @ msg_from m @ [CHR 0x0A, CHR 0x0A] @ body\<rparr> r]))
     \<and> (\<forall>e \<in> set (events_since w (snd (check_emails_loop E cfg nums w))).
          \<not> is_ticket_read e \<and> \<not> is_comment e)"
proof (intro conjI impI)
  show "\<forall>e \<in> set new. \<not> is_ticket_read e \<and> \<not> is_comment e"
    using handle_unseen_appends[of E cfg num w] unfolding new_def events_since_def by auto
  show "\<forall>e \<in> set (events_since w (snd (check_emails_loop E cfg nums w))).
          \<not> is_ticket_read e \<and> \<not> is_comment e"
    using check_emails_loop_appends[of E cfg nums w] unfolding events_since_def by auto
next
  assume a: "imap_fetch (mail E) num (mailbox w) = (Inr (''OK'', m), mb)"
    "message_body m = Inr body" "redmine_default_project_id cfg = Some p"
  show "\<exists>r. redmine_calls new =
             [RedmineCreate
                \<lparr>new_project_id = p, new_subject = msg_subject m,
                 new_description = ''De: '' @ msg_from m @ [CHR 0x0A, CHR 0x0A] @ body\<rparr> r]"
    using a unfolding new_def
    by (cases E cfg num w rule: handle_unseen_cases)
      (simp_all add: events_since_def redmine_calls_def ticket_description_def)
qed

theorem poll_files_every_message_witness:
  "(\<exists>r. redmine_calls (events_since demo_world
         (snd (handle_unseen demo_services demo_config ''1'' demo_world)))
       = [RedmineCreate thanks_data r])
   \<and> list_all (\<lambda>e. \<not> is_ticket_read e \<and> \<not> is_comment e)
       (events_since demo_world (snd (check_emails_loop demo_services demo_config [''1''] demo_world)))"
proof -
  have f: "imap_fetch (mail demo_services) ''1'' (mailbox demo_world)
             = (Inr (''OK'', reply_mail), mailbox demo_world)" by code_simp
  have b: "message_body reply_mail = Inr ''thanks a lot''" by code_simp
  have p: "redmine_default_project_id demo_config = Some (JStr ''support'')" by code_simp
  have m: "msg_subject reply_mail = JStr ''[Redmine #7] thanks''" "msg_from reply_mail = ''a@b.com''"
    by (simp_all add: reply_mail_def)
  note t = poll_files_every_message[where E = demo_services and cfg = demo_config
      and w = demo_world and num = "''1''" and nums = "[''1'']"]
  from t[THEN conjunct2, THEN conjunct1, rule_format, OF f b p] m
  have "\<exists>r. redmine_calls (events_since demo_world
         (snd (handle_unseen demo_services demo_config ''1'' demo_world)))
       = [RedmineCreate thanks_data r]"
    by (simp add: thanks_data_def)
  moreover from t[THEN conjunct2, THEN conjunct2]
  have "list_all (\<lambda>e. \<not> is_ticket_read e \<and> \<not> is_comment e)
       (events_since demo_world (snd (check_emails_loop demo_services demo_config [''1''] demo_world)))"
    by (simp add: list_all_iff)
  ultimately show ?thesis by simp
qed
subsection \<open>C3: which journal entries the scan notifies\<close>

text \<open>
  C3: the scan notifies a journal entry only if it was created strictly after the watermark
  and has notes; it never notifies an entry created at or before the watermark. The scan
  compares the creation time of an entry, a \<^verbatim>\<open>datetime\<close>, with the integer watermark
  (\<^verbatim>\<open>journal.created_on >= updated_since\<close>, line 239). The comparison raises \<open>TypeError\<close>,
  whatever the two values are, and the exception ends the scan (third part). So no run of
  the scan calls \<^verbatim>\<open>send_email\<close> for any entry: none for an entry created at or before the
  watermark, none for an entry without notes (first and second part); and for every
  watermark and every list of entries, the loop over the entries leaves the world, and so
  the history of calls, as it found it (fourth part).
\<close>

theorem scan_notifies_no_old_entry:
  "(\<forall>a s b. SendEmailCall a s b \<notin> set (events_since w (process_redmine_updates E cfg w)))
   \<and> mail_requests (events_since w (process_redmine_updates E cfg w)) = []
   \<and> (journal_created_on j = Some created_on \<longrightarrow>
        notify_journals E cfg iss requester_email updated_since (j # js) w = (Inl TypeError, w))
   \<and> snd (notify_journals E cfg iss requester_email updated_since js w) = w"
proof (intro conjI impI)
  show "snd (notify_journals E cfg iss requester_email updated_since js w) = w"
    by (simp add: notify_journals_closed)
  show n: "\<forall>a s b. SendEmailCall a s b \<notin> set (events_since w (process_redmine_updates E cfg w))"
    by (auto simp: events_since_scan no_send_in_scan split: sum.splits)
  have "\<forall>e \<in> set (events_since w (process_redmine_updates E cfg w)). mail_request e = []"
  proof
    fix e
    assume "e \<in> set (events_since w (process_redmine_updates E cfg w))"
    with n show "mail_request e = []" by (cases e) auto
  qed
  then show "mail_requests (events_since w (process_redmine_updates E cfg w)) = []"
    by (simp add: mail_requests_def)
  show "journal_created_on j = Some created_on \<Longrightarrow>
        notify_journals E cfg iss requester_email updated_since (j # js) w = (Inl TypeError, w)"
    by (simp add: datetime_ge_int_def)
qed

theorem scan_notifies_no_old_entry_witness:
  "notify_journals demo_services demo_config ticket7 ''a@b.com'' 700 (iss_journals ticket7) demo_world
     = (Inl TypeError, demo_world)
   \<and> events_since demo_world (process_redmine_updates demo_services demo_config demo_world)
     = [RedmineFilter recent_issues_query (Inr [ticket7]),
        RedmineGet (JInt 7) [''journals'', ''attachments''] (Inr ticket7)]"
proof -
  have j: "iss_journals ticket7 =
      \<lparr>journal_created_on = Some (Datetime 699), journal_notes = Some ''old note''\<rparr>
      # [\<lparr>journal_created_on = Some (Datetime 700), journal_notes = Some ''on the boundary''\<rparr>,
         \<lparr>journal_created_on = Some (Datetime 800), journal_notes = Some []\<rparr>,
         \<lparr>journal_created_on = Some (Datetime 900), journal_notes = Some ''fixed''\<rparr>]"
    by (simp add: ticket7_def)
  have c: "journal_created_on \<lparr>journal_created_on = Some (Datetime 699), journal_notes = Some ''old note''\<rparr>
             = Some (Datetime 699)" by simp
  from scan_notifies_no_old_entry[where E = demo_services and cfg = demo_config and w = demo_world
      and iss = ticket7 and requester_email = "''a@b.com''" and updated_since = 700,
      THEN conjunct2, THEN conjunct2, THEN conjunct1, rule_format, OF c] j
  have "notify_journals demo_services demo_config ticket7 ''a@b.com'' 700 (iss_journals ticket7) demo_world
     = (Inl TypeError, demo_world)" by simp
  moreover have "events_since demo_world (process_redmine_updates demo_services demo_config demo_world)
     = [RedmineFilter recent_issues_query (Inr [ticket7]),
        RedmineGet (JInt 7) [''journals'', ''attachments''] (Inr ticket7)]"
    by code_simp
  ultimately show ?thesis by simp
qed

subsection \<open>C4: one effect per message of the e-mail webhook\<close>

text \<open>
  C4 says that a message without a valid tag always leads to one new ticket and one
  confirmation e-mail sent to the sender. Two runs on the small tracker show otherwise. A
  reply tagged with ticket 99, which the tracker does not know, changes nothing in the
  tracker: the tag is not valid, yet no ticket is created. And the message of scenario A
  (no tag) does create its ticket, but nothing reaches the SMTP server.
\<close>

theorem reply_without_valid_tag_not_filed:
  "issue_get (redmine demo_services) (JStr ''99'') [] (tracker demo_world) = Inl ResourceNotFoundError
   \<and> filter is_mutation (trace (snd (email_webhook demo_services demo_config
         (Inr (mail_json ''a@b.com'' ''[Redmine #99] thanks'' ''thanks a lot'')) demo_world))) = []
   \<and> tickets (tracker (snd (email_webhook demo_services demo_config
         (Inr (mail_json ''a@b.com'' ''[Redmine #99] thanks'' ''thanks a lot'')) demo_world))) = [ticket7]
   \<and> tickets (tracker (snd (email_webhook demo_services demo_config (Inr help_mail) empty_world)))
       = [help_ticket]
   \<and> delivered (mailbox (snd (email_webhook demo_services demo_config (Inr help_mail) empty_world)))
       = []"
  by code_simp

text \<open>
  C4 as amended, for a body whose three fields are strings. If the subject holds no tag, the
  project is configured and the tracker accepts the creation, the handler answers 200; its
  only call to the tracker is that creation, with the description
  \<^verbatim>\<open>De: <sender>\<close>, an empty line and the body; and it calls \<^verbatim>\<open>send_email\<close> exactly once, for
  the sender, with a subject that starts with the tag of the new ticket. If the subject holds
  a tag, the handler answers 200, never creates a ticket and never calls \<^verbatim>\<open>send_email\<close>;
  when the tracker knows the ticket and accepts the update, its calls are one read and one
  update of that ticket, whose notes start with a line naming the sender.
\<close>

theorem email_webhook_one_effect:
  fixes E :: "('r, 'm) services" and cfg :: config and w :: "('r, 'm) world"
    and kvs :: "(string \<times> json) list" and p :: json and s sender content :: string
  assumes "map_of kvs ''from'' = Some (JStr sender)"
    and "map_of kvs ''subject'' = Some (JStr s)"
    and "map_of kvs ''body'' = Some (JStr content)"
  defines "run \<equiv> email_webhook E cfg (Inr (JObj kvs)) w"
  defines "new \<equiv> events_since w (snd run)"
  defines "ticket \<equiv> \<lparr>new_project_id = p, new_subject = JStr s,
                       new_description = ''De: '' @ sender @ [CHR 0x0A, CHR 0x0A] @ content\<rparr>"
  defines "comment \<equiv> ''Commentaire par e-mail de '' @ sender @ '':'' @ [CHR 0x0A, CHR 0x0A] @ content"
  shows
    "(re_search s = None \<longrightarrow> redmine_default_project_id cfg = Some p \<longrightarrow>
        issue_create (redmine E) ticket (tracker w) = (Inr i, t) \<longrightarrow>
        fst run = (StatusSuccess, 200)
        \<and> redmine_calls new = [RedmineCreate ticket (Inr i)]
        \<and> mail_requests new = [(JStr sender, confirmation_subject i, confirmation_body i)]
        \<and> startswith (confirmation_subject i) (encode_tag (iss_id i))
        \<and> tracker (snd run) = t)
     \<and> (re_search s = Some ticket_id \<longrightarrow>
        fst run = (StatusSuccess, 200)
        \<and> mail_requests new = []
        \<and> (\<forall>d r. RedmineCreate d r \<notin> set new)
        \<and> (issue_get (redmine E) (JStr ticket_id) [] (tracker w) = Inr i' \<longrightarrow>
            issue_update (redmine E) (JStr ticket_id) comment (tracker w) = (Inr (), t') \<longrightarrow>
            redmine_calls new
              = [RedmineGet (JStr ticket_id) [] (Inr i'), RedmineUpdate (JStr ticket_id) comment (Inr ())]
            \<and> tracker (snd run) = t'))"
proof (intro conjI impI)
  assume a: "re_search s = None" "redmine_default_project_id cfg = Some p"
    "issue_create (redmine E) ticket (tracker w) = (Inr i, t)"
  have run: "run = ((StatusSuccess, 200),
      emit (SendEmailCall (JStr sender) (confirmation_subject i) (confirmation_body i))
        (emit (RedmineCreate ticket (Inr i)) (w\<lparr>tracker := t\<rparr>)))"
    unfolding run_def
    using email_webhook_untagged[OF assms(1-3) a(1,2), where E = E and w = w and r = "Inr i" and t = t] a(3)
    by (simp add: format_value_str ticket_description_def ticket_def)
  show "fst run = (StatusSuccess, 200)" by (simp add: run)
  show "redmine_calls new = [RedmineCreate ticket (Inr i)]"
    by (simp add: new_def run events_since_emit2 redmine_calls_def)
  show "mail_requests new = [(JStr sender, confirmation_subject i, confirmation_body i)]"
    by (simp add: new_def run events_since_emit2 mail_requests_def)
  show "startswith (confirmation_subject i) (encode_tag (iss_id i))"
    by (rule confirmation_subject_tag)
  show "tracker (snd run) = t" by (simp add: run)
next
  assume a: "re_search s = Some ticket_id"
  have run: "run = ((StatusSuccess, 200), snd (update_redmine_issue E (JStr ticket_id) comment w))"
    unfolding run_def
    by (simp add: email_webhook_tagged[OF assms(1-3) a] format_value_str comment_text_def comment_def)
  show "fst run = (StatusSuccess, 200)" by (simp add: run)
  show "mail_requests new = []"
    by (cases "issue_update (redmine E) (JStr ticket_id) comment (tracker w)")
      (auto simp: new_def run update_redmine_issue_def mail_requests_def events_since_def Let_def
        split: sum.splits)
  show "\<forall>d r. RedmineCreate d r \<notin> set new"
    by (cases "issue_update (redmine E) (JStr ticket_id) comment (tracker w)")
      (auto simp: new_def run update_redmine_issue_def events_since_def Let_def
        split: sum.splits)
  assume b: "issue_get (redmine E) (JStr ticket_id) [] (tracker w) = Inr i'"
    "issue_update (redmine E) (JStr ticket_id) comment (tracker w) = (Inr (), t')"
  have upd: "snd (update_redmine_issue E (JStr ticket_id) comment w) =
      emit (RedmineUpdate (JStr ticket_id) comment (Inr ()))
        ((emit (RedmineGet (JStr ticket_id) [] (Inr i')) w)\<lparr>tracker := t'\<rparr>)"
    by (simp add: update_redmine_issue_found[OF b])
  show "redmine_calls new
      = [RedmineGet (JStr ticket_id) [] (Inr i'), RedmineUpdate (JStr ticket_id) comment (Inr ())]"
    by (simp add: new_def run upd events_since_emit2' redmine_calls_def)
  show "tracker (snd run) = t'" by (simp add: run upd)
qed

theorem email_webhook_one_effect_witness:
  "redmine_calls (events_since empty_world
       (snd (email_webhook demo_services demo_config (Inr help_mail) empty_world)))
     = [RedmineCreate
          \<lparr>new_project_id = JStr ''support'', new_subject = JStr ''Need help'',
           new_description = ''De: a@b.com'' @ [CHR 0x0A, CHR 0x0A] @ ''it'' @ [CHR 0x27] @ ''s broken''\<rparr>
          (Inr help_ticket)]
   \<and> mail_requests (events_since empty_world
       (snd (email_webhook demo_services demo_config (Inr help_mail) empty_world)))
     = [(JStr ''a@b.com'', confirmation_subject help_ticket, confirmation_body help_ticket)]
   \<and> redmine_calls (events_since demo_world
       (snd (email_webhook demo_services demo_config
          (Inr (mail_json ''a@b.com'' ''[Redmine #7] thanks'' ''thanks a lot'')) demo_world)))
     = [RedmineGet (JStr ''7'') [] (Inr ticket7),
        RedmineUpdate (JStr ''7'')
          (''Commentaire par e-mail de a@b.com:'' @ [CHR 0x0A, CHR 0x0A] @ ''thanks a lot'') (Inr ())]
   \<and> mail_requests (events_since demo_world
       (snd (email_webhook demo_services demo_config
          (Inr (mail_json ''a@b.com'' ''[Redmine #7] thanks'' ''thanks a lot'')) demo_world)))
     = []"
proof -
  let ?kvsA = "[(''from'', JStr ''a@b.com''), (''subject'', JStr ''Need help''),
                (''body'', JStr (''it'' @ [CHR 0x27] @ ''s broken''))]"
  let ?kvsB = "[(''from'', JStr ''a@b.com''), (''subject'', JStr ''[Redmine #7] thanks''),
                (''body'', JStr ''thanks a lot'')]"
  have sA: "re_search ''Need help'' = None" by code_simp
  have pA: "redmine_default_project_id demo_config = Some (JStr ''support'')"
    by (simp add: demo_config_def)
  have cA: "issue_create (redmine demo_services)
       \<lparr>new_project_id = JStr ''support'', new_subject = JStr ''Need help'',
        new_description = ''De: '' @ ''a@b.com'' @ [CHR 0x0A, CHR 0x0A] @ (''it'' @ [CHR 0x27] @ ''s broken'')\<rparr>
       (tracker empty_world)
     = (Inr help_ticket, \<lparr>tickets = [help_ticket], next_id = 2, today = 1000\<rparr>)"
    by code_simp
  have sB: "re_search ''[Redmine #7] thanks'' = Some ''7''" by code_simp
  have gB: "issue_get (redmine demo_services) (JStr ''7'') [] (tracker demo_world) = Inr ticket7"
    by code_simp
  obtain t' where uB: "issue_update (redmine demo_services) (JStr ''7'')
       (''Commentaire par e-mail de '' @ ''a@b.com'' @ '':'' @ [CHR 0x0A, CHR 0x0A] @ ''thanks a lot'')
       (tracker demo_world) = (Inr (), t')"
    by (simp add: demo_defs int_of_digits_def is_digit_def)
  have A: "email_webhook demo_services demo_config (Inr help_mail) empty_world
             = email_webhook demo_services demo_config (Inr (JObj ?kvsA)) empty_world"
    by (simp add: help_mail_def mail_json_def)
  have B: "mail_json ''a@b.com'' ''[Redmine #7] thanks'' ''thanks a lot'' = JObj ?kvsB"
    by (simp add: mail_json_def)
  from email_webhook_one_effect[where kvs = ?kvsA and E = demo_services and cfg = demo_config
      and w = empty_world, THEN conjunct1, rule_format, OF _ _ _ sA pA cA]
  have rA: "redmine_calls (events_since empty_world
       (snd (email_webhook demo_services demo_config (Inr (JObj ?kvsA)) empty_world)))
     = [RedmineCreate
          \<lparr>new_project_id = JStr ''support'', new_subject = JStr ''Need help'',
           new_description = ''De: a@b.com'' @ [CHR 0x0A, CHR 0x0A] @ ''it'' @ [CHR 0x27] @ ''s broken''\<rparr>
          (Inr help_ticket)]
   \<and> mail_requests (events_since empty_world
       (snd (email_webhook demo_services demo_config (Inr (JObj ?kvsA)) empty_world)))
     = [(JStr ''a@b.com'', confirmation_subject help_ticket, confirmation_body help_ticket)]"
    by simp
  from email_webhook_one_effect[where kvs = ?kvsB and E = demo_services and cfg = demo_config
      and w = demo_world, THEN conjunct2, rule_format, OF _ _ _ sB]
  have rB0: "mail_requests (events_since demo_world
       (snd (email_webhook demo_services demo_config (Inr (JObj ?kvsB)) demo_world))) = []
     \<and> (issue_get (redmine demo_services) (JStr ''7'') [] (tracker demo_world) = Inr ticket7 \<longrightarrow>
        issue_update (redmine demo_services) (JStr ''7'')
          (''Commentaire par e-mail de '' @ ''a@b.com'' @ '':'' @ [CHR 0x0A, CHR 0x0A] @ ''thanks a lot'')
          (tracker demo_world) = (Inr (), t') \<longrightarrow>
        redmine_calls (events_since demo_world
          (snd (email_webhook demo_services demo_config (Inr (JObj ?kvsB)) demo_world)))
        = [RedmineGet (JStr ''7'') [] (Inr ticket7),
           RedmineUpdate (JStr ''7'')
             (''Commentaire par e-mail de '' @ ''a@b.com'' @ '':'' @ [CHR 0x0A, CHR 0x0A] @ ''thanks a lot'')
             (Inr ())])"
    by simp
  with gB uB have rB: "redmine_calls (events_since demo_world
          (snd (email_webhook demo_services demo_config (Inr (JObj ?kvsB)) demo_world)))
        = [RedmineGet (JStr ''7'') [] (Inr ticket7),
           RedmineUpdate (JStr ''7'')
             (''Commentaire par e-mail de '' @ ''a@b.com'' @ '':'' @ [CHR 0x0A, CHR 0x0A] @ ''thanks a lot'')
             (Inr ())]"
    by blast
  show ?thesis using rA rB rB0 by (simp add: A B)
qed

subsection \<open>C5: the tag codec\<close>

text \<open>
  C5: a subject built by embedding \<open>encode_tag n\<close> decodes to \<open>n\<close>: the search returns the
  decimal digits of \<open>n\<close>, whose value is \<open>n\<close>, provided no tag stands before it, since the
  first occurrence wins (third part). Decoding a string never fails: it is \<open>None\<close> exactly
  when the subject holds no tag. Ticket numbers are not negative.
\<close>

theorem tag_codec:
  "(0 \<le> n \<longrightarrow> re_search pre = None \<longrightarrow>
      re_search (pre @ encode_tag n @ suf) = Some (str_int n) \<and> int_of_digits (str_int n) = n)
   \<and> search_subject (JStr s) = Inr (re_search s)
   \<and> (re_search s = None \<longleftrightarrow> \<not> contains_tag s)
   \<and> (0 \<le> a \<longrightarrow> re_search pre = None \<longrightarrow>
      re_search (pre @ encode_tag a @ mid @ encode_tag b @ suf) = Some (str_int a))"
proof (intro conjI impI)
  show "re_search pre = None \<Longrightarrow> 0 \<le> n \<Longrightarrow> re_search (pre @ encode_tag n @ suf) = Some (str_int n)"
    by (rule re_search_encode_tag)
  show "0 \<le> n \<Longrightarrow> int_of_digits (str_int n) = n"
    by (rule int_of_digits_str_int)
  show "search_subject (JStr s) = Inr (re_search s)"
    by (simp add: search_subject_def)
  show "re_search s = None \<longleftrightarrow> \<not> contains_tag s"
    by (rule re_search_None_iff)
  show "re_search pre = None \<Longrightarrow> 0 \<le> a \<Longrightarrow>
        re_search (pre @ encode_tag a @ mid @ encode_tag b @ suf) = Some (str_int a)"
    by (rule re_search_encode_tag)
qed

theorem tag_codec_witness:
  "re_search ''Re: [Redmine #42] help'' = Some ''42'' \<and> int_of_digits ''42'' = 42
   \<and> re_search ''[Redmine #7] about [Redmine #9]'' = Some ''7''"
proof -
  have e42: "encode_tag 42 = ''[Redmine #42]''" by code_simp
  have e7: "encode_tag 7 = ''[Redmine #7]''" and e9: "encode_tag 9 = ''[Redmine #9]''"
    by code_simp+
  have s42: "str_int 42 = ''42''" and s7: "str_int 7 = ''7''" by code_simp+
  have p1: "re_search ''Re: '' = None" and p2: "re_search [] = None" by code_simp+
  from tag_codec[where n = 42 and pre = "''Re: ''" and suf = "'' help''"] p1 e42 s42
  have "re_search ''Re: [Redmine #42] help'' = Some ''42'' \<and> int_of_digits ''42'' = 42" by simp
  moreover from tag_codec[where a = 7 and pre = "[]" and mid = "'' about ''" and b = 9 and suf = "[]"]
    p2 e7 e9 s7
  have "re_search ''[Redmine #7] about [Redmine #9]'' = Some ''7''" by simp
  ultimately show ?thesis by simp
qed

subsection \<open>C6: the requester of a ticket\<close>

text \<open>
  C6: a description that starts with the line \<^verbatim>\<open>De: x@example.com\<close> yields
  \<^verbatim>\<open>x@example.com\<close>, whatever follows the line. In general the first line that starts with
  \<^verbatim>\<open>De:\<close> decides, and the result is the rest of that line, stripped (the program removes
  every \<^verbatim>\<open>De:\<close> of the line, so the rest is taken not to hold another one). A description
  none of whose lines starts with \<^verbatim>\<open>De:\<close> yields none.
\<close>

theorem requester_extraction:
  "extract_requester (''De: x@example.com'' @ CHR 0x0A # rest) = Some ''x@example.com''
   \<and> (split_on (CHR 0x0A) d = before @ (''De:'' @ r) # after \<longrightarrow>
        (\<forall>l \<in> set before. \<not> startswith l ''De:'') \<longrightarrow> \<not> is_substring ''De:'' r \<longrightarrow>
        extract_requester d = Some (strip r))
   \<and> ((\<forall>l \<in> set (split_on (CHR 0x0A) d'). \<not> startswith l ''De:'') \<longrightarrow>
        extract_requester d' = None)"
proof (intro conjI impI)
  have "split_on (CHR 0x0A) (''De: x@example.com'' @ CHR 0x0A # rest)
          = ''De: x@example.com'' # split_on (CHR 0x0A) rest"
    by (rule split_on_line) simp
  moreover have "find_requester ((''De:'' @ '' x@example.com'') # split_on (CHR 0x0A) rest)
          = Some (strip '' x@example.com'')"
    by (rule find_requester_header) (simp add: startswith_def)
  moreover have "strip '' x@example.com'' = ''x@example.com''"
    by (simp add: strip_def py_isspace_def)
  ultimately show "extract_requester (''De: x@example.com'' @ CHR 0x0A # rest) = Some ''x@example.com''"
    by (simp add: extract_requester_def)
next
  assume "split_on (CHR 0x0A) d = before @ (''De:'' @ r) # after"
    and "\<forall>l \<in> set before. \<not> startswith l ''De:''" and "\<not> is_substring ''De:'' r"
  then show "extract_requester d = Some (strip r)"
    using find_requester_skip[of before "(''De:'' @ r) # after"] find_requester_header[of r after]
    by (simp add: extract_requester_def)
next
  assume "\<forall>l \<in> set (split_on (CHR 0x0A) d'). \<not> startswith l ''De:''"
  then show "extract_requester d' = None"
    by (simp add: extract_requester_def find_requester_None)
qed

theorem requester_extraction_witness:
  "extract_requester (''Ticket'' @ [CHR 0x0A] @ ''De:  a@b.com '' @ [CHR 0x0A] @ ''De: z@y.org'')
     = Some ''a@b.com''
   \<and> extract_requester (''no header'' @ [CHR 0x0A] @ ''Sender: a@b.com'') = None"
proof -
  have sp: "split_on (CHR 0x0A) (''Ticket'' @ [CHR 0x0A] @ ''De:  a@b.com '' @ [CHR 0x0A] @ ''De: z@y.org'')
              = [''Ticket''] @ (''De:'' @ ''  a@b.com '') # [''De: z@y.org'']"
    by code_simp
  have b: "\<forall>l \<in> set [''Ticket'']. \<not> startswith l ''De:''" by (simp add: startswith_def)
  have n: "\<not> is_substring ''De:'' ''  a@b.com ''" by code_simp
  have st: "strip ''  a@b.com '' = ''a@b.com''" by code_simp
  have none: "\<forall>l \<in> set (split_on (CHR 0x0A) (''no header'' @ [CHR 0x0A] @ ''Sender: a@b.com'')).
                \<not> startswith l ''De:''"
    by (simp add: startswith_def)
  from requester_extraction[where
      d = "''Ticket'' @ [CHR 0x0A] @ ''De:  a@b.com '' @ [CHR 0x0A] @ ''De: z@y.org''"
      and before = "[''Ticket'']" and r = "''  a@b.com ''" and after = "[''De: z@y.org'']"
      and d' = "''no header'' @ [CHR 0x0A] @ ''Sender: a@b.com''"] sp b n st none
  show ?thesis by simp
qed

subsection \<open>C7: the scan can be repeated\<close>

text \<open>
  C7: the scan leaves the tracker and the clock as they are, a second scan right after the
  first adds the same events to the history as the first did, and two scans started from
  worlds with the same tracker state and the same clock (hence the same watermark) request
  the same notifications, whatever the mailbox and the history are. (The notifications of
  either scan are none, see C3; the events that are the same are the query and the reads.)
\<close>

theorem scan_is_repeatable:
  "tracker (process_redmine_updates E cfg w) = tracker w
   \<and> clock (process_redmine_updates E cfg w) = clock w
   \<and> events_since (process_redmine_updates E cfg w)
         (process_redmine_updates E cfg (process_redmine_updates E cfg w))
       = events_since w (process_redmine_updates E cfg w)
   \<and> (tracker w' = tracker w \<longrightarrow> clock w' = clock w \<longrightarrow>
        mail_requests (events_since w' (process_redmine_updates E cfg w'))
          = mail_requests (events_since w (process_redmine_updates E cfg w)))"
proof (intro conjI impI)
  show t: "tracker (process_redmine_updates E cfg w) = tracker w"
    by (simp add: process_redmine_updates_closed)
  show c: "clock (process_redmine_updates E cfg w) = clock w"
    by (simp add: process_redmine_updates_closed)
  show "events_since (process_redmine_updates E cfg w)
         (process_redmine_updates E cfg (process_redmine_updates E cfg w))
       = events_since w (process_redmine_updates E cfg w)"
    by (simp only: events_since_scan t c)
  show "tracker w' = tracker w \<Longrightarrow> clock w' = clock w \<Longrightarrow>
        mail_requests (events_since w' (process_redmine_updates E cfg w'))
          = mail_requests (events_since w (process_redmine_updates E cfg w))"
    by (simp only: events_since_scan)
qed

theorem scan_is_repeatable_witness:
  "mail_requests (events_since later_world (process_redmine_updates demo_services demo_config later_world))
     = mail_requests (events_since demo_world (process_redmine_updates demo_services demo_config demo_world))
   \<and> events_since (process_redmine_updates demo_services demo_config demo_world)
         (process_redmine_updates demo_services demo_config
            (process_redmine_updates demo_services demo_config demo_world))
     = [RedmineFilter recent_issues_query (Inr [ticket7]),
        RedmineGet (JInt 7) [''journals'', ''attachments''] (Inr ticket7)]"
proof -
  note r = scan_is_repeatable[where E = demo_services and cfg = demo_config and w = demo_world
      and w' = later_world]
  have "tracker later_world = tracker demo_world" "clock later_world = clock demo_world"
    by (simp_all add: later_world_def)
  with r
  have "mail_requests (events_since later_world (process_redmine_updates demo_services demo_config later_world))
     = mail_requests (events_since demo_world (process_redmine_updates demo_services demo_config demo_world))"
    by simp
  moreover have "events_since demo_world (process_redmine_updates demo_services demo_config demo_world)
     = [RedmineFilter recent_issues_query (Inr [ticket7]),
        RedmineGet (JInt 7) [''journals'', ''attachments''] (Inr ticket7)]"
    by code_simp
  ultimately show ?thesis using r by simp
qed

subsection \<open>C8: malformed webhook bodies\<close>

text \<open>
  C8 says that every body without the required fields is answered 400 by the e-mail
  webhook, and every malformed body by the Redmine webhook. The Redmine webhook only tests
  \<^verbatim>\<open>if not data\<close>: a body without an \<^verbatim>\<open>issue\<close> key is answered 200 "success", and one whose
  \<^verbatim>\<open>issue\<close> has no \<^verbatim>\<open>id\<close> is answered 500. The e-mail webhook answers the body \<^verbatim>\<open>5\<close>,
  which has none of the fields, with 500: the membership test raises.
\<close>

theorem malformed_body_not_rejected:
  "redmine_webhook demo_services demo_config (Inr (JObj [(''ticket'', JInt 7)])) demo_world
     = ((StatusSuccess, 200), demo_world)
   \<and> redmine_webhook demo_services demo_config (Inr (JObj [(''issue'', JObj [])])) demo_world
     = ((ErrorException (KeyError ''id''), 500), demo_world)
   \<and> email_webhook demo_services demo_config (Inr (JInt 5)) demo_world
     = ((ErrorException TypeError, 500), demo_world)"
  by code_simp

text \<open>
  C8 as amended. The e-mail webhook answers 400 with the error body, and does nothing else,
  when the body is an object that lacks one of \<^verbatim>\<open>from\<close>, \<^verbatim>\<open>subject\<close>, \<^verbatim>\<open>body\<close> (the empty
  object included) or is any other empty value (\<^verbatim>\<open>null\<close>, \<^verbatim>\<open>[]\<close>, \<^verbatim>\<open>""\<close>, \<^verbatim>\<open>0\<close>,
  \<^verbatim>\<open>false\<close>). The Redmine webhook answers 400 exactly when the body is such an empty
  value, and then does nothing else; a non-empty object without the key \<^verbatim>\<open>issue\<close> is
  answered 200 with no call made. A request whose JSON cannot be read at all (reading
  \<^verbatim>\<open>request.json\<close> raises) is answered 500 by both.
\<close>

theorem malformed_bodies:
  "(k \<in> {''from'', ''subject'', ''body''} \<longrightarrow> k \<notin> fst ` set kvs \<longrightarrow>
      email_webhook E cfg (Inr (JObj kvs)) w = ((ErrorInvalidJson, 400), w))
   \<and> (\<not> truthy d \<longrightarrow> email_webhook E cfg (Inr d) w = ((ErrorInvalidJson, 400), w))
   \<and> (\<not> truthy d \<longrightarrow> redmine_webhook E cfg (Inr d) w = ((ErrorInvalidJson, 400), w))
   \<and> (snd (fst (redmine_webhook E cfg (Inr d) w)) = 400 \<longleftrightarrow> \<not> truthy d)
   \<and> (kvs' \<noteq> [] \<longrightarrow> ''issue'' \<notin> fst ` set kvs' \<longrightarrow>
      redmine_webhook E cfg (Inr (JObj kvs')) w = ((StatusSuccess, 200), w))
   \<and> redmine_webhook E cfg (Inl e) w = ((ErrorException e, 500), w)
   \<and> email_webhook E cfg (Inl e) w = ((ErrorException e, 500), w)"
proof (intro conjI impI)
  show "k \<in> {''from'', ''subject'', ''body''} \<Longrightarrow> k \<notin> fst ` set kvs \<Longrightarrow>
        email_webhook E cfg (Inr (JObj kvs)) w = ((ErrorInvalidJson, 400), w)"
    by (rule email_webhook_invalid) (rule email_payload_missing)
  show "\<not> truthy d \<Longrightarrow> email_webhook E cfg (Inr d) w = ((ErrorInvalidJson, 400), w)"
    by (rule email_webhook_invalid) (simp add: email_payload_invalid_def)
  show "\<not> truthy d \<Longrightarrow> redmine_webhook E cfg (Inr d) w = ((ErrorInvalidJson, 400), w)"
    by (rule redmine_webhook_empty)
  show "snd (fst (redmine_webhook E cfg (Inr d) w)) = 400 \<longleftrightarrow> \<not> truthy d"
    using redmine_webhook_status[of d E cfg w] redmine_webhook_empty[of d E cfg w]
    by (cases "truthy d") auto
  show "kvs' \<noteq> [] \<Longrightarrow> ''issue'' \<notin> fst ` set kvs' \<Longrightarrow>
        redmine_webhook E cfg (Inr (JObj kvs')) w = ((StatusSuccess, 200), w)"
    by (rule redmine_webhook_no_issue)
  show "redmine_webhook E cfg (Inl e) w = ((ErrorException e, 500), w)"
    by (simp add: redmine_webhook_def)
  show "email_webhook E cfg (Inl e) w = ((ErrorException e, 500), w)"
    by (simp add: email_webhook_def)
qed

theorem malformed_bodies_witness:
  "email_webhook demo_services demo_config (Inr (JObj [])) demo_world
     = ((ErrorInvalidJson, 400), demo_world)
   \<and> email_webhook demo_services demo_config
       (Inr (JObj [(''from'', JStr ''a@b.com''), (''body'', JStr ''no subject'')])) demo_world
     = ((ErrorInvalidJson, 400), demo_world)
   \<and> redmine_webhook demo_services demo_config (Inr JNull) demo_world
     = ((ErrorInvalidJson, 400), demo_world)
   \<and> redmine_webhook demo_services demo_config (Inr (JObj [(''ticket'', JInt 7)])) demo_world
     = ((StatusSuccess, 200), demo_world)"
proof -
  note m = malformed_bodies[where E = demo_services and cfg = demo_config and w = demo_world]
  have "email_webhook demo_services demo_config (Inr (JObj [])) demo_world
     = ((ErrorInvalidJson, 400), demo_world)"
    using m[where d = "JObj []", THEN conjunct2, THEN conjunct1] by simp
  moreover have "email_webhook demo_services demo_config
       (Inr (JObj [(''from'', JStr ''a@b.com''), (''body'', JStr ''no subject'')])) demo_world
     = ((ErrorInvalidJson, 400), demo_world)"
    using m[where k = "''subject''"
        and kvs = "[(''from'', JStr ''a@b.com''), (''body'', JStr ''no subject'')]",
        THEN conjunct1] by simp
  moreover have "redmine_webhook demo_services demo_config (Inr JNull) demo_world
     = ((ErrorInvalidJson, 400), demo_world)"
    using m[where d = JNull, THEN conjunct2, THEN conjunct2, THEN conjunct1] by simp
  moreover have "redmine_webhook demo_services demo_config (Inr (JObj [(''ticket'', JInt 7)])) demo_world
     = ((StatusSuccess, 200), demo_world)"
    using m[where kvs' = "[(''ticket'', JInt 7)]", THEN conjunct2, THEN conjunct2, THEN conjunct2,
        THEN conjunct2, THEN conjunct1] by simp
  ultimately show ?thesis by simp
qed

subsection \<open>C9: the scan looks at the tickets of one query\<close>

text \<open>
  C9: the scan asks the tracker once, with \<^verbatim>\<open>limit=100\<close> and \<^verbatim>\<open>sort="updated_on:desc"\<close>.
  Every ticket it reads afterwards, and every notification it requests, belongs to a ticket
  of the answer; it reads at most one ticket per ticket of the answer, so at most 100 when
  the tracker honours the limit. When the query fails the scan does nothing more. (The scan
  requests no notification at all, see C3, so the part on notifications holds of every
  ticket.)
\<close>

theorem scan_examines_query_result_only:
  fixes E :: "('r, 'm) services" and cfg :: config and w :: "('r, 'm) world"
  defines "answer \<equiv> issue_filter (redmine E) recent_issues_query (tracker w)"
  defines "new \<equiv> events_since w (process_redmine_updates E cfg w)"
  shows
    "recent_issues_query =
       \<lparr>q_updated_on = ''>=2000-01-01T00:00:00Z'', q_sort = ''updated_on:desc'', q_limit = 100\<rparr>
     \<and> (\<exists>rest. new = RedmineFilter recent_issues_query answer # rest
           \<and> (\<forall>q x. RedmineFilter q x \<notin> set rest))
     \<and> (\<forall>e. answer = Inl e \<longrightarrow> new = [RedmineFilter recent_issues_query answer])
     \<and> (\<forall>issues. answer = Inr issues \<longrightarrow>
          (\<forall>k inc g. RedmineGet k inc g \<in> set new \<longrightarrow> (\<exists>iss \<in> set issues. k = JInt (iss_id iss)))
          \<and> (\<forall>a s b. SendEmailCall a s b \<in> set new \<longrightarrow> (\<exists>iss \<in> set issues. s = update_subject iss))
          \<and> length (filter is_ticket_read new) \<le> length issues
          \<and> (length issues \<le> q_limit recent_issues_query \<longrightarrow>
               length (filter is_ticket_read new) \<le> 100))"
proof (intro conjI allI impI)
  show "recent_issues_query =
       \<lparr>q_updated_on = ''>=2000-01-01T00:00:00Z'', q_sort = ''updated_on:desc'', q_limit = 100\<rparr>"
    by (simp add: recent_issues_query_def)
  show "\<exists>rest. new = RedmineFilter recent_issues_query answer # rest
           \<and> (\<forall>q x. RedmineFilter q x \<notin> set rest)"
    unfolding new_def answer_def events_since_scan
    by (auto simp: no_filter_in_scan split: sum.splits)
  show "new = [RedmineFilter recent_issues_query answer]" if "answer = Inl e" for e
    using that unfolding new_def answer_def events_since_scan by simp
next
  fix issues
  assume a: "answer = Inr issues"
  have new: "new = RedmineFilter recent_issues_query answer # scan_events E (tracker w) issues"
    using a unfolding new_def answer_def events_since_scan by simp
  show "\<exists>iss \<in> set issues. k = JInt (iss_id iss)" if "RedmineGet k inc g \<in> set new" for k inc g
    using that get_in_scan unfolding new by fastforce
  show "\<exists>iss \<in> set issues. s = update_subject iss" if "SendEmailCall a s b \<in> set new" for a s b
    using that no_send_in_scan[of a s b E "tracker w" issues] unfolding new by simp
  show r: "length (filter is_ticket_read new) \<le> length issues"
    unfolding new using reads_in_scan[of E "tracker w" issues] by simp
  show "length (filter is_ticket_read new) \<le> 100" if "length issues \<le> q_limit recent_issues_query"
    using that r by (simp add: recent_issues_query_def)
qed

theorem scan_examines_query_result_only_witness:
  "issue_filter (redmine demo_services) recent_issues_query (tracker demo_world) = Inr [ticket7]
   \<and> length (filter is_ticket_read
        (events_since demo_world (process_redmine_updates demo_services demo_config demo_world))) \<le> 1
   \<and> length (filter is_ticket_read
        (events_since demo_world (process_redmine_updates demo_services demo_config demo_world))) \<le> 100"
proof -
  have f: "issue_filter (redmine demo_services) recent_issues_query (tracker demo_world) = Inr [ticket7]"
    by code_simp
  have l: "length [ticket7] \<le> q_limit recent_issues_query"
    by (simp add: recent_issues_query_def)
  note s = scan_examines_query_result_only[where E = demo_services and cfg = demo_config
      and w = demo_world, THEN conjunct2, THEN conjunct2, THEN conjunct2, rule_format, OF f]
  from s l f show ?thesis by simp
qed

subsection \<open>C10: marking a message as seen\<close>

text \<open>
  C10 says that a message is marked as seen and its confirmation dispatched exactly when the
  ticket was created, and that a message whose ticket could not be created stays unread.
  The claim is about the body of the loop of \<^verbatim>\<open>check_emails\<close> (lines 160 to 206), which is
  \<open>handle_unseen\<close>. Three runs of it on the unread reply show otherwise. With a mailbox that
  refuses to store flags, the ticket is created, the message stays unread and \<^verbatim>\<open>send_email\<close>
  is not called: the exception of \<^verbatim>\<open>mail.store\<close> leaves the loop before line 206. With a
  mailbox whose fetch flags the message, and a tracker that refuses the creation, the
  message is no longer unread although no ticket exists. And with the small tracker and
  mailbox, the ticket is created and the flag stored, but nothing reaches the SMTP server.
\<close>

theorem seen_flag_and_ticket_can_differ:
  "events_since demo_world (snd (handle_unseen locked_services demo_config ''1'' demo_world))
     = [ImapFetch ''1'' (Inr (''OK'', reply_mail)),
        RedmineCreate thanks_data (Inr thanks_ticket),
        ImapStore ''1'' (Inl (LibraryError ''STORE failed''))]
   \<and> unseen (mailbox (snd (handle_unseen locked_services demo_config ''1'' demo_world)))
     = [(''1'', reply_mail)]
   \<and> events_since demo_world (snd (handle_unseen flagging_down_services demo_config ''1'' demo_world))
     = [ImapFetch ''1'' (Inr (''OK'', reply_mail)),
        RedmineCreate thanks_data (Inl (LibraryError ''connection refused''))]
   \<and> unseen (mailbox (snd (handle_unseen flagging_down_services demo_config ''1'' demo_world))) = []
   \<and> events_since demo_world (snd (handle_unseen demo_services demo_config ''1'' demo_world))
     = [ImapFetch ''1'' (Inr (''OK'', reply_mail)),
        RedmineCreate thanks_data (Inr thanks_ticket),
        ImapStore ''1'' (Inr ()),
        SendEmailCall (JStr ''a@b.com'') (confirmation_subject thanks_ticket)
          (confirmation_body thanks_ticket)]
   \<and> delivered (mailbox (snd (handle_unseen demo_services demo_config ''1'' demo_world))) = []"
  by code_simp

text \<open>
  C10 as amended, for the handling of one unread message: the \<^verbatim>\<open>+FLAGS \\Seen\<close> command is
  issued for the message exactly when its ticket was created; \<^verbatim>\<open>send_email\<close> is called
  exactly when the ticket was created and that command did not fail, and then once, for the
  sender, with the confirmation of the new ticket; when the creation fails, no flag is
  stored, no confirmation is requested and the mailbox is as the fetch left it.
\<close>

theorem seen_flag_stored_iff_ticket_created:
  fixes E :: "('r, 'm) services" and cfg :: config and w :: "('r, 'm) world" and num :: string
  defines "step \<equiv> handle_unseen E cfg num w"
  defines "new \<equiv> events_since w (snd step)"
  shows
    "((\<exists>x. ImapStore num x \<in> set new) \<longleftrightarrow> (\<exists>d i. RedmineCreate d (Inr i) \<in> set new))
     \<and> ((\<exists>a s b. SendEmailCall a s b \<in> set new) \<longleftrightarrow>
          (\<exists>d i. RedmineCreate d (Inr i) \<in> set new) \<and> ImapStore num (Inr ()) \<in> set new)
     \<and> (\<forall>d i. RedmineCreate d (Inr i) \<in> set new \<longrightarrow> ImapStore num (Inr ()) \<in> set new \<longrightarrow>
          (\<exists>m mb. imap_fetch (mail E) num (mailbox w) = (Inr (''OK'', m), mb)
             \<and> mail_requests new = [(JStr (msg_from m), confirmation_subject i, confirmation_body i)]))
     \<and> ((\<exists>d e. RedmineCreate d (Inl e) \<in> set new) \<longrightarrow>
          (\<forall>n x. ImapStore n x \<notin> set new) \<and> mail_requests new = []
          \<and> mailbox (snd step) = snd (imap_fetch (mail E) num (mailbox w)))"
  unfolding new_def step_def
  by (cases E cfg num w rule: handle_unseen_cases)
    (simp_all add: events_since_def mail_requests_def)

theorem seen_flag_stored_iff_ticket_created_witness:
  "mail_requests (events_since demo_world (snd (handle_unseen demo_services demo_config ''1'' demo_world)))
     = [(JStr ''a@b.com'', confirmation_subject thanks_ticket, confirmation_body thanks_ticket)]
   \<and> mail_requests (events_since demo_world (snd (handle_unseen down_services demo_config ''1'' demo_world)))
     = []
   \<and> unseen (mailbox (snd (handle_unseen down_services demo_config ''1'' demo_world)))
     = [(''1'', reply_mail)]"
proof -
  have c: "RedmineCreate thanks_data (Inr thanks_ticket)
      \<in> set (events_since demo_world (snd (handle_unseen demo_services demo_config ''1'' demo_world)))"
    by code_simp
  have st: "ImapStore ''1'' (Inr ())
      \<in> set (events_since demo_world (snd (handle_unseen demo_services demo_config ''1'' demo_world)))"
    by code_simp
  have f: "imap_fetch (mail demo_services) ''1'' (mailbox demo_world)
             = (Inr (''OK'', reply_mail), mailbox demo_world)" by code_simp
  from seen_flag_stored_iff_ticket_created[where E = demo_services and cfg = demo_config
      and w = demo_world and num = "''1''", THEN conjunct2, THEN conjunct2, THEN conjunct1,
      rule_format, OF c st] f
  have ok: "mail_requests (events_since demo_world
        (snd (handle_unseen demo_services demo_config ''1'' demo_world)))
     = [(JStr ''a@b.com'', confirmation_subject thanks_ticket, confirmation_body thanks_ticket)]"
    by (auto simp: reply_mail_def)
  have d: "\<exists>d e. RedmineCreate d (Inl e)
      \<in> set (events_since demo_world (snd (handle_unseen down_services demo_config ''1'' demo_world)))"
  proof -
    have "RedmineCreate thanks_data (Inl (LibraryError ''connection refused''))
      \<in> set (events_since demo_world (snd (handle_unseen down_services demo_config ''1'' demo_world)))"
      by code_simp
    then show ?thesis by blast
  qed
  have f': "snd (imap_fetch (mail down_services) ''1'' (mailbox demo_world)) = mailbox demo_world"
    by code_simp
  have u: "unseen (mailbox demo_world) = [(''1'', reply_mail)]" by code_simp
  from seen_flag_stored_iff_ticket_created[where E = down_services and cfg = demo_config
      and w = demo_world and num = "''1''", THEN conjunct2, THEN conjunct2, THEN conjunct2,
      rule_format, OF d] f' u
  have "mail_requests (events_since demo_world
        (snd (handle_unseen down_services demo_config ''1'' demo_world))) = []
     \<and> unseen (mailbox (snd (handle_unseen down_services demo_config ''1'' demo_world)))
       = [(''1'', reply_mail)]"
    by simp
  with ok show ?thesis by simp
qed

end
